theory Spec2Isabelle
  imports Complex_Main
begin

section \<open>The notebook viewer of compas_notebook and its scene-object plugin\<close>

text \<open>
  The development embeds \<^verbatim>\<open>src/compas_notebook/viewer.py\<close> (class \<^verbatim>\<open>Viewer\<close>) and
  \<^verbatim>\<open>src/compas_pythreejs/scene/__init__.py\<close>. Python objects with identity (widgets,
  3D objects, closure cells) live in an explicit store indexed by references; the
  attributes of the viewer hold references. A method returns an outcome that carries the
  state in both cases, because a Python exception leaves the mutations made so far in
  place.
\<close>

subsection \<open>Configuration\<close>

text \<open>
  Modelled from the spec: the class \<^verbatim>\<open>Config\<close> (module \<^verbatim>\<open>.config\<close>) is not part of the
  sources at hand. The records follow the schema of the configuration file:
  \<^verbatim>\<open>view.{width,height,background,show_grid,show_axes,viewport,camera:{position,up,near,far,fov,target}}\<close>
  and \<^verbatim>\<open>ui.{show_toolbar,show_statusbar,sidebar:{show,items:[{type,action,value,text}]}}\<close>.
  A camera parameter that is not set is \<open>None\<close>. Numbers are handed through to the 3D
  library unchanged, so they are exact rationals here. The field \<open>background\<close> is the
  hexadecimal string of the configured colour (\<^verbatim>\<open>background.hex\<close>).
\<close>

record camera_config =
  cam_position :: "rat list option"
  cam_up :: "rat list option"
  cam_near :: "rat option"
  cam_far :: "rat option"
  cam_fov :: "rat option"
  cam_target :: "rat list option"

record view_config =
  width :: int
  height :: int
  background :: string
  show_grid :: bool
  show_axes :: bool
  viewport :: string
  camera :: camera_config

record item =
  item_type :: string
  item_action :: string
  item_value :: bool
  item_text :: string

record sidebar_config =
  sidebar_show :: bool
  sidebar_items :: "item list option"

record ui_config =
  show_toolbar :: bool
  show_statusbar :: bool
  sidebar :: sidebar_config

record config =
  view :: view_config
  ui :: ui_config

subsection \<open>Scene and controller, owned by other modules\<close>

text \<open>
  A scene object exposes, after a draw, its list of renderable handles (\<^verbatim>\<open>guids\<close>). The
  handles are objects of the 3D library that the scene owns; they are opaque numbers
  here. The scene's \<^verbatim>\<open>draw()\<close> is an operation of the geometry framework: the methods
  below take it as a parameter \<open>draw\<close>.

  Modelled from the spec: the class \<^verbatim>\<open>Controller\<close> (module \<^verbatim>\<open>.controller\<close>) is not part of
  the sources at hand. A controller is the list of the method names it has; what a method
  does is unknown, so a call is recorded in the viewer's call log.
\<close>

record scene_object =
  guids :: "nat list"

type_synonym scene = "scene_object list"

record controller =
  methods :: "string list"

subsection \<open>The store of objects\<close>

text \<open>
  A layout (and a style) is the list of the properties the source assigns, in the order of
  the assignments, each with its value. \<open>PlainBox\<close> is the widget class \<^verbatim>\<open>Box\<close>.
\<close>

type_synonym ref = nat

type_synonym layout = "(string \<times> string) list"

datatype box_kind = VBox | HBox | GridBox | PlainBox

text \<open>
  A callback registered on a widget: a toolbar lambda
  \<^verbatim>\<open>lambda x: self.controller.load_scene()\<close> names its controller method; the nested
  function \<^verbatim>\<open>action\<close> of \<^verbatim>\<open>make_sidebar\<close> refers to the cell of the enclosing function's
  variable \<^verbatim>\<open>item\<close>, which it reads when it is called.
\<close>

datatype callback = Controller_call string | Action_closure ref

text \<open>
  A child of the 3D scene graph is an object of the viewer's own (the grid, the axes) or a
  handle of a scene object. The colours of the grid are the values of
  \<^verbatim>\<open>Color.grey().hex\<close> and \<^verbatim>\<open>Color.grey().lightened(50).hex\<close> of the geometry framework.
\<close>

datatype handle = Local ref | Guid nat

datatype colour = Grey_hex | Grey_lightened_hex nat

record grid_helper =
  grid_size :: int
  grid_divisions :: int
  colorCenterLine :: colour
  colorGrid :: colour
  grid_rotateX :: rat

record orthographic_camera =
  o_left :: rat
  o_right :: rat
  o_top :: rat
  o_bottom :: rat
  o_near :: rat
  o_far :: rat
  o_position :: "rat list"
  o_zoom :: rat

record perspective_camera =
  p_position :: "rat list"
  p_up :: "rat list"
  p_aspect :: rat
  p_near :: rat
  p_far :: rat
  p_fov :: rat
  p_lookAt :: "rat list"

record orbit_controls =
  controlling :: ref
  enableRotate :: bool
  maxDistance :: rat
  minDistance :: rat

record renderer =
  r_scene :: ref
  r_camera :: ref
  r_controls :: "ref list"
  r_width :: int
  r_height :: int
  antialias :: bool

record text_widget =
  text_value :: string
  text_placeholder :: string
  text_description :: string
  text_disabled :: bool
  text_layout :: layout
  text_style :: layout

text \<open>
  The objects: a container widget with its layout and children; a button with icon,
  tooltip, layout and click handlers; a checkbox with value, description, layout and the
  observers of its value; the text widget; the cell of a closure variable (empty until the
  variable is bound); the 3D scene graph with background and children; the helpers, the
  cameras, the controls and the renderer.
\<close>

datatype obj =
    Container box_kind layout "ref list"
  | Button string string layout "callback list"
  | Checkbox bool string layout "callback list"
  | Text text_widget
  | Cell "item option"
  | Scene3 string "handle list"
  | GridHelper grid_helper
  | AxesHelper rat
  | OrthographicCamera orthographic_camera
  | PerspectiveCamera perspective_camera
  | OrbitControls orbit_controls
  | Renderer renderer

text \<open>
  The argument the widget library hands to an observer of a trait: the change
  notification with the old and the new value.
\<close>

datatype change = Change bool bool

subsection \<open>The viewer\<close>

text \<open>
  The attributes \<open>toolbar\<close>, \<open>main\<close>, \<open>statusbar\<close> and \<open>statustext\<close> are set to
  Python's \<^verbatim>\<open>None\<close> by the constructor: \<open>None\<close> is that value. The attributes \<open>scene3\<close>,
  \<open>grid3\<close>, \<open>axes3\<close>, \<open>camera3\<close>, \<open>controls3\<close>, \<open>renderer3\<close> and \<open>ui_root\<close> (the
  source's \<^verbatim>\<open>self.ui\<close>) are not set by the constructor: \<open>None\<close> means that the attribute
  does not exist, and reading it raises \<^verbatim>\<open>AttributeError\<close>. The remaining fields are the
  world around the viewer: the store, the widgets handed to the notebook's display, and the
  log of controller calls. The store is the list of all objects created so far; a
  reference is the position of its object, so the next fresh reference is the length of
  the store.
\<close>

record viewer =
  config :: config
  scene :: scene
  controller :: controller
  toolbar :: "ref option"
  main :: "ref option"
  statusbar :: "ref option"
  statustext :: "ref option"
  scene3 :: "ref option"
  grid3 :: "ref option"
  axes3 :: "ref option"
  camera3 :: "ref option"
  controls3 :: "ref option"
  renderer3 :: "ref option"
  ui_root :: "ref option"
  store :: "obj list"
  displayed :: "ref list"
  calls :: "(string \<times> change option) list"

text \<open>
  \<open>StoreError\<close> is not a Python exception: it marks a reference that the store does not
  bind to an object of the expected class, which Python's object model excludes.
\<close>

datatype error =
    AttributeError string
  | NotImplementedError
  | ZeroDivisionError
  | NameError string
  | StoreError

datatype 'a outcome = Returns 'a viewer | Raises error viewer

definition then_do :: "'a outcome \<Rightarrow> ('a \<Rightarrow> viewer \<Rightarrow> 'b outcome) \<Rightarrow> 'b outcome" where
  "then_do m f = (case m of Raises e v \<Rightarrow> Raises e v | Returns x v \<Rightarrow> f x v)"

definition next_ref :: "viewer \<Rightarrow> ref" where
  "next_ref v = length (store v)"

definition lookup :: "viewer \<Rightarrow> ref \<Rightarrow> obj option" where
  "lookup v r = (if r < length (store v) then Some (store v ! r) else None)"

definition put :: "ref \<Rightarrow> obj \<Rightarrow> viewer \<Rightarrow> viewer" where
  "put r ob v = v\<lparr>store := (store v)[r := ob]\<rparr>"

definition alloc :: "obj \<Rightarrow> viewer \<Rightarrow> ref \<times> viewer" where
  "alloc ob v = (next_ref v, v\<lparr>store := store v @ [ob]\<rparr>)"

definition get_attr :: "string \<Rightarrow> ref option \<Rightarrow> viewer \<Rightarrow> ref outcome" where
  "get_attr name a v = (case a of None \<Rightarrow> Raises (AttributeError name) v | Some r \<Rightarrow> Returns r v)"

text \<open>Python's \<^verbatim>\<open>x or d\<close>: the default replaces \<^verbatim>\<open>None\<close> and every other falsy value.\<close>

definition or_num :: "rat option \<Rightarrow> rat \<Rightarrow> rat" where
  "or_num x d = (case x of None \<Rightarrow> d | Some n \<Rightarrow> if n = 0 then d else n)"

definition or_vec :: "rat list option \<Rightarrow> rat list \<Rightarrow> rat list" where
  "or_vec x d = (case x of None \<Rightarrow> d | Some xs \<Rightarrow> if xs = [] then d else xs)"

text \<open>The decimal form of an integer, as an f-string prints it.\<close>

fun digits :: "nat \<Rightarrow> string" where
  "digits n =
     (if n < 10 then [''0123456789'' ! n]
      else digits (n div 10) @ [''0123456789'' ! (n mod 10)])"

declare digits.simps [simp del]

definition str_int :: "int \<Rightarrow> string" where
  "str_int i = (if i < 0 then CHR ''-'' # digits (nat (- i)) else digits (nat i))"

definition px :: "int \<Rightarrow> string" where
  "px i = str_int i @ ''px''"

subsection \<open>The constructor\<close>

text \<open>
  \<^verbatim>\<open>Viewer.__init__\<close>: an argument that is \<^verbatim>\<open>None\<close> is replaced by its default. The
  defaults are made by other modules: \<open>file_config\<close> is the configuration read from the
  configuration file, \<open>default_controller\<close> is \<^verbatim>\<open>Controller(viewer=self)\<close>, and the
  default scene \<^verbatim>\<open>Scene(context="Notebook")\<close> has no objects. The viewer starts in a world
  \<open>w\<close>, of which it keeps the store, the display and the call log.
\<close>

definition Viewer_init ::
  "viewer \<Rightarrow> config \<Rightarrow> controller \<Rightarrow> config option \<Rightarrow> scene option \<Rightarrow> controller option \<Rightarrow> viewer" where
  "Viewer_init w file_config default_controller config_arg scene_arg controller_arg =
     w\<lparr>config := (case config_arg of None \<Rightarrow> file_config | Some c \<Rightarrow> c),
       scene := (case scene_arg of None \<Rightarrow> [] | Some s \<Rightarrow> s),
       controller := (case controller_arg of None \<Rightarrow> default_controller | Some c \<Rightarrow> c),
       toolbar := None, main := None, statusbar := None, statustext := None,
       scene3 := None, grid3 := None, axes3 := None, camera3 := None, controls3 := None,
       renderer3 := None, ui_root := None\<rparr>"

text \<open>The empty world: no object, nothing displayed, no call made.\<close>

definition empty_world :: viewer where
  "empty_world =
     \<lparr>config = \<lparr>view = \<lparr>width = 0, height = 0, background = [], show_grid = False,
                         show_axes = False, viewport = [],
                         camera = \<lparr>cam_position = None, cam_up = None, cam_near = None,
                                   cam_far = None, cam_fov = None, cam_target = None\<rparr>\<rparr>,
                ui = \<lparr>show_toolbar = False, show_statusbar = False,
                       sidebar = \<lparr>sidebar_show = False, sidebar_items = None\<rparr>\<rparr>\<rparr>,
      scene = [], controller = \<lparr>methods = []\<rparr>,
      toolbar = None, main = None, statusbar = None, statustext = None,
      scene3 = None, grid3 = None, axes3 = None, camera3 = None, controls3 = None,
      renderer3 = None, ui_root = None,
      store = [], displayed = [], calls = []\<rparr>"

subsection \<open>The 3D scene graph\<close>

text \<open>
  \<^verbatim>\<open>Object3D.add\<close> and \<^verbatim>\<open>Object3D.remove\<close> belong to the 3D library: \<open>add\<close> appends the
  child to the children of the object, \<open>remove\<close> drops it from them.
\<close>

definition children3 :: "ref \<Rightarrow> viewer \<Rightarrow> handle list outcome" where
  "children3 r v =
     (case lookup v r of Some (Scene3 bg cs) \<Rightarrow> Returns cs v | _ \<Rightarrow> Raises StoreError v)"

definition set_children3 :: "ref \<Rightarrow> handle list \<Rightarrow> viewer \<Rightarrow> unit outcome" where
  "set_children3 r cs v =
     (case lookup v r of
        Some (Scene3 bg old) \<Rightarrow> Returns () (put r (Scene3 bg cs) v)
      | _ \<Rightarrow> Raises StoreError v)"

definition add3 :: "ref \<Rightarrow> handle \<Rightarrow> viewer \<Rightarrow> unit outcome" where
  "add3 r h v = then_do (children3 r v) (\<lambda>cs. set_children3 r (cs @ [h]))"

definition remove3 :: "ref \<Rightarrow> handle \<Rightarrow> viewer \<Rightarrow> unit outcome" where
  "remove3 r h v = then_do (children3 r v) (\<lambda>cs. set_children3 r (filter (\<lambda>c. c \<noteq> h) cs))"

fun add_all :: "ref \<Rightarrow> handle list \<Rightarrow> viewer \<Rightarrow> unit outcome" where
  "add_all r [] v = Returns () v"
| "add_all r (h # hs) v = then_do (add3 r h v) (\<lambda>_. add_all r hs)"

fun remove_all :: "ref \<Rightarrow> handle list \<Rightarrow> viewer \<Rightarrow> unit outcome" where
  "remove_all r [] v = Returns () v"
| "remove_all r (h # hs) v = then_do (remove3 r h v) (\<lambda>_. remove_all r hs)"

text \<open>
  The two nested loops \<^verbatim>\<open>for o in self.scene.objects: for o3 in o.guids\<close> visit the
  handles of all objects in order.
\<close>

definition scene_handles :: "scene \<Rightarrow> handle list" where
  "scene_handles s = concat (map (\<lambda>ob. map Guid (guids ob)) s)"

subsection \<open>WebGL set-up\<close>

text \<open>
  The camera and its controls. \<^verbatim>\<open>lookAt\<close> is recorded as the target of the camera. The
  controls of the perspective camera keep the library's default for \<^verbatim>\<open>enableRotate\<close>,
  which is true.
\<close>

definition init_camera :: "int \<Rightarrow> int \<Rightarrow> rat \<Rightarrow> viewer \<Rightarrow> unit outcome" where
  "init_camera w h aspect v =
     (let cam = camera (view (config v)) in
      if viewport (view (config v)) = ''top'' then
        (let (c, v1) = alloc (OrthographicCamera
                \<lparr>o_left = of_int w / (- 2), o_right = of_int w / 2,
                 o_top = of_int h / 2, o_bottom = of_int h / (- 2),
                 o_near = 0.1, o_far = 10000,
                 o_position = or_vec (cam_position cam) [0, 0, 1], o_zoom = 1\<rparr>) v;
             v2 = v1\<lparr>camera3 := Some c\<rparr>;
             (k, v3) = alloc (OrbitControls
                \<lparr>controlling = c, enableRotate = False,
                 maxDistance = 1000, minDistance = 0.1\<rparr>) v2
         in Returns () (v3\<lparr>controls3 := Some k\<rparr>))
      else if viewport (view (config v)) = ''perspective'' then
        (let (c, v1) = alloc (PerspectiveCamera
                \<lparr>p_position = or_vec (cam_position cam) [0, - 10, 5],
                 p_up = or_vec (cam_up cam) [0, 0, 1],
                 p_aspect = aspect,
                 p_near = or_num (cam_near cam) 0.1,
                 p_far = or_num (cam_far cam) 1000,
                 p_fov = or_num (cam_fov cam) 50,
                 p_lookAt = or_vec (cam_target cam) [0, 0, 0]\<rparr>) v;
             v2 = v1\<lparr>camera3 := Some c\<rparr>;
             (k, v3) = alloc (OrbitControls
                \<lparr>controlling = c, enableRotate = True,
                 maxDistance = 1000, minDistance = 0.1\<rparr>) v2
         in Returns () (v3\<lparr>controls3 := Some k\<rparr>))
      else Raises NotImplementedError v)"

definition init_renderer :: "int \<Rightarrow> int \<Rightarrow> viewer \<Rightarrow> unit outcome" where
  "init_renderer w h v =
     then_do (get_attr ''scene3'' (scene3 v) v) (\<lambda>s v.
     then_do (get_attr ''camera3'' (camera3 v) v) (\<lambda>c v.
     then_do (get_attr ''controls3'' (controls3 v) v) (\<lambda>k v.
       (let (r, v1) = alloc (Renderer
               \<lparr>r_scene = s, r_camera = c, r_controls = [k],
                r_width = w, r_height = h, antialias = True\<rparr>) v
        in Returns () (v1\<lparr>renderer3 := Some r\<rparr>)))))"

definition init_grid :: "ref \<Rightarrow> viewer \<Rightarrow> unit outcome" where
  "init_grid s v =
     (if show_grid (view (config v)) then
        (let (g, v1) = alloc (GridHelper
                \<lparr>grid_size = 20, grid_divisions = 20, colorCenterLine = Grey_hex,
                 colorGrid = Grey_lightened_hex 50, grid_rotateX = 3.14159 / 2\<rparr>) v
         in add3 s (Local g) (v1\<lparr>grid3 := Some g\<rparr>))
      else Returns () v)"

definition init_axes :: "ref \<Rightarrow> viewer \<Rightarrow> unit outcome" where
  "init_axes s v =
     (if show_axes (view (config v)) then
        (let (a, v1) = alloc (AxesHelper 0.5) v
         in add3 s (Local a) (v1\<lparr>axes3 := Some a\<rparr>))
      else Returns () v)"

text \<open>
  \<^verbatim>\<open>init_webgl\<close>. The quotient \<^verbatim>\<open>width / height\<close> is Python's true division: it raises
  \<^verbatim>\<open>ZeroDivisionError\<close> for a zero height, before anything is created. The quotient is
  kept exact (the rounding of the float is not modelled).
\<close>

definition init_webgl :: "viewer \<Rightarrow> unit outcome" where
  "init_webgl v =
     (let w = width (view (config v)); h = height (view (config v)) in
      if h = 0 then Raises ZeroDivisionError v
      else
        (let aspect = of_int w / of_int h;
             (s, v1) = alloc (Scene3 (background (view (config v))) []) v;
             v2 = v1\<lparr>scene3 := Some s\<rparr>
         in then_do (init_grid s v2) (\<lambda>_ v.
            then_do (init_axes s v) (\<lambda>_ v.
            then_do (init_camera w h aspect v) (\<lambda>_ v.
            init_renderer w h v)))))"

subsection \<open>The user interface\<close>

text \<open>
  A widget that a method creates in a local variable and then configures field by field
  is allocated with the fields it has when the method hands it on. The order of the
  allocations is the order of the constructor calls in the source.
\<close>

definition button_layout :: layout where
  "button_layout = [(''width'', ''48px''), (''height'', ''32px'')]"

definition make_toolbar :: "viewer \<Rightarrow> ref outcome" where
  "make_toolbar v =
     (let (b1, v1) = alloc (Button ''folder-open'' ''Load scene'' button_layout
                              [Controller_call ''load_scene'']) v;
          (b2, v2) = alloc (Button ''save'' ''Load scene'' button_layout
                              [Controller_call ''save_scene'']) v1;
          (b3, v3) = alloc (Button ''search-plus'' ''Zoom in'' button_layout
                              [Controller_call ''zoom_in'']) v2;
          (b4, v4) = alloc (Button ''search-minus'' ''Zoom out'' button_layout
                              [Controller_call ''zoom_out'']) v3;
          (t, v5) = alloc (Container HBox
                       [(''display'', ''flex''), (''flex_flow'', ''row''),
                        (''align_items'', ''center''), (''width'', ''auto''),
                        (''height'', ''48px''), (''padding'', ''0px 0px 0px 0px''),
                        (''margin'', ''0px 0px 16px 0px'')]
                       [b1, b2, b3, b4]) v4
      in Returns t v5)"

definition make_statusbar :: "viewer \<Rightarrow> ref outcome" where
  "make_statusbar v =
     (let (t, v1) = alloc (Text
               \<lparr>text_value = [], text_placeholder = ''...'', text_description = [],
                text_disabled = True,
                text_layout = [(''width'', ''100%''), (''height'', ''32px''),
                               (''padding'', ''0px 0px 0px 0px''),
                               (''margin'', ''0px 0px 0px 0px'')],
                text_style = [(''background'', ''#eeeeee'')]\<rparr>) v;
          v2 = v1\<lparr>statustext := Some t\<rparr>;
          (s, v3) = alloc (Container HBox
                       [(''display'', ''flex''), (''flex_flow'', ''row''),
                        (''align_items'', ''flex-start''), (''width'', ''auto''),
                        (''height'', ''48px''), (''padding'', ''0px 0px 0px 0px''),
                        (''margin'', ''0px 0px 0px 0px'')]
                       [t]) v2
      in Returns s v3)"

definition make_view3d :: "viewer \<Rightarrow> ref outcome" where
  "make_view3d v =
     then_do (get_attr ''renderer3'' (renderer3 v) v) (\<lambda>r v.
       (let (b, v1) = alloc (Container PlainBox
                        [(''width'', ''auto''),
                         (''height'', px (height (view (config v)) + 4))]
                        [r]) v
        in Returns b v1))"

definition item_layout :: layout where
  "item_layout =
     [(''width'', ''100%''), (''margin'', ''0px''), (''padding'', ''0px''),
      (''display'', ''block'')]"

text \<open>
  The loop of \<^verbatim>\<open>make_sidebar\<close>. Each round binds the variable \<^verbatim>\<open>item\<close>, that is, it
  overwrites the cell \<open>c\<close>; the function \<^verbatim>\<open>action\<close> defined in the round is a closure over
  that cell.
\<close>

fun sidebar_loop :: "ref \<Rightarrow> item list \<Rightarrow> ref list \<Rightarrow> viewer \<Rightarrow> ref list \<times> viewer" where
  "sidebar_loop c [] children v = (children, v)"
| "sidebar_loop c (it # its) children v =
     (let v1 = put c (Cell (Some it)) v in
      if item_type it = ''checkbox'' then
        (let (cb, v2) = alloc (Checkbox (item_value it) (item_text it) item_layout
                                 [Action_closure c]) v1
         in sidebar_loop c its (children @ [cb]) v2)
      else sidebar_loop c its children v1)"

definition sidebar_layout :: "int \<Rightarrow> layout" where
  "sidebar_layout h =
     [(''width'', ''240px''), (''grid_template_rows'', ''32px 1fr''),
      (''height'', px (h + 4)), (''align_content'', ''flex-start''),
      (''align_items'', ''flex-start''), (''justify_content'', ''flex-start''),
      (''justify_items'', ''flex-start''), (''overflow'', ''hidden''),
      (''padding'', ''0px''), (''margin'', ''0px'')]"

definition make_sidebar :: "viewer \<Rightarrow> ref outcome" where
  "make_sidebar v =
     (let items = sidebar_items (sidebar (ui (config v)));
          (c, v1) = alloc (Cell None) v;
          lay = sidebar_layout (height (view (config v)));
          (s, v2) = alloc (Container GridBox lay []) v1;
          (children, v3) =
            (case items of
               None \<Rightarrow> ([], v2)
             | Some its \<Rightarrow> if its = [] then ([], v2) else sidebar_loop c its [] v2)
      in Returns s (put s (Container GridBox lay children) v3))"

definition make_main :: "viewer \<Rightarrow> ref outcome" where
  "make_main v =
     then_do (if sidebar_show (sidebar (ui (config v)))
              then then_do (make_sidebar v) (\<lambda>s. Returns [s])
              else Returns [] v) (\<lambda>children v.
     then_do (make_view3d v) (\<lambda>view3d v.
       (let (m, v1) = alloc (Container HBox
                        [(''width'', ''auto''),
                         (''height'', px (height (view (config v)) + 4))]
                        (children @ [view3d])) v
        in Returns m v1)))"

definition init_ui :: "viewer \<Rightarrow> unit outcome" where
  "init_ui v =
     (let (u, v1) = alloc (Container VBox [(''width'', ''auto'')] []) v;
          v2 = v1\<lparr>ui_root := Some u\<rparr>;
          h0 = height (view (config v2))
      in
      then_do (if show_toolbar (ui (config v2))
               then then_do (make_toolbar v2) (\<lambda>t v.
                      Returns ([t], h0 + 64) (v\<lparr>toolbar := Some t\<rparr>))
               else Returns ([], h0) v2) (\<lambda>(children, h) v.
      then_do (then_do (make_main v) (\<lambda>m v. Returns m (v\<lparr>main := Some m\<rparr>))) (\<lambda>m v.
      then_do (if show_statusbar (ui (config v))
               then then_do (make_statusbar v) (\<lambda>s v.
                      Returns (children @ [m, s], h + 48) (v\<lparr>statusbar := Some s\<rparr>))
               else Returns (children @ [m], h) v) (\<lambda>(children, h) v.
        Returns ()
          (put u (Container VBox [(''width'', ''auto''), (''height'', px (h + 4))] children)
             v)))))"

subsection \<open>System methods\<close>

text \<open>
  \<^verbatim>\<open>show\<close> (here \<open>show_viewer\<close>) and \<^verbatim>\<open>update\<close>. The parameter \<open>draw\<close> is the scene's
  \<^verbatim>\<open>draw()\<close>, which leaves the objects of the scene with their new handles;
  \<open>attach_scene\<close> is the pair of loops that adds the handles of all scene objects to the
  3D scene graph; \<^verbatim>\<open>ipydisplay\<close> appends the widget to the display. \<^verbatim>\<open>update\<close> removes the
  children one by one and then assigns the empty list.
\<close>

definition attach_scene :: "viewer \<Rightarrow> unit outcome" where
  "attach_scene v =
     then_do (get_attr ''scene3'' (scene3 v) v) (\<lambda>s. add_all s (scene_handles (scene v)))"

definition ipydisplay :: "viewer \<Rightarrow> unit outcome" where
  "ipydisplay v =
     then_do (get_attr ''ui'' (ui_root v) v) (\<lambda>u v. Returns () (v\<lparr>displayed := displayed v @ [u]\<rparr>))"

definition show_viewer :: "(scene \<Rightarrow> scene) \<Rightarrow> viewer \<Rightarrow> unit outcome" where
  "show_viewer draw v =
     then_do (init_webgl v) (\<lambda>_ v.
     then_do (init_ui v) (\<lambda>_ v.
     then_do (attach_scene (v\<lparr>scene := draw (scene v)\<rparr>)) (\<lambda>_ v.
     ipydisplay v)))"

definition update :: "(scene \<Rightarrow> scene) \<Rightarrow> viewer \<Rightarrow> unit outcome" where
  "update draw v =
     then_do (get_attr ''scene3'' (scene3 v) v) (\<lambda>s v.
     then_do (children3 s v) (\<lambda>cs v.
     then_do (remove_all s cs v) (\<lambda>_ v.
     then_do (set_children3 s [] v) (\<lambda>_ v.
     then_do (if show_grid (view (config v))
              then then_do (get_attr ''grid3'' (grid3 v) v) (\<lambda>g. add3 s (Local g))
              else Returns () v) (\<lambda>_ v.
     then_do (if show_axes (view (config v))
              then then_do (get_attr ''axes3'' (axes3 v) v) (\<lambda>a. add3 s (Local a))
              else Returns () v) (\<lambda>_ v.
     attach_scene (v\<lparr>scene := draw (scene v)\<rparr>)))))))"

subsection \<open>Actions and events\<close>

text \<open>
  \<^verbatim>\<open>set_statustext\<close>: a widget object is truthy, so the test \<^verbatim>\<open>if self.statustext\<close> fails
  exactly for \<^verbatim>\<open>None\<close>.
\<close>

definition set_statustext :: "string \<Rightarrow> viewer \<Rightarrow> unit outcome" where
  "set_statustext txt v =
     (case statustext v of
        None \<Rightarrow> Returns () v
      | Some r \<Rightarrow>
          (case lookup v r of
             Some (Text t) \<Rightarrow> Returns () (put r (Text (t\<lparr>text_value := txt\<rparr>)) v)
           | _ \<Rightarrow> Raises StoreError v))"

text \<open>
  \<^verbatim>\<open>getattr(self.controller, name)\<close> raises \<^verbatim>\<open>AttributeError\<close> for a name the controller
  does not have; the call of the method found is recorded with its argument.
\<close>

definition call_controller :: "string \<Rightarrow> change option \<Rightarrow> viewer \<Rightarrow> unit outcome" where
  "call_controller name arg v =
     (if name \<in> set (methods (controller v))
      then Returns () (v\<lparr>calls := calls v @ [(name, arg)]\<rparr>)
      else Raises (AttributeError name) v)"

text \<open>
  Running a callback with the argument \<open>x\<close> of the widget library. The toolbar lambdas
  drop the argument. The closure \<^verbatim>\<open>action\<close> reads \<^verbatim>\<open>item\<close> from its cell when it runs.
\<close>

definition run_callback :: "callback \<Rightarrow> change \<Rightarrow> viewer \<Rightarrow> unit outcome" where
  "run_callback cb x v =
     (case cb of
        Controller_call name \<Rightarrow> call_controller name None v
      | Action_closure c \<Rightarrow>
          (case lookup v c of
             Some (Cell (Some it)) \<Rightarrow> call_controller (item_action it) (Some x) v
           | Some (Cell None) \<Rightarrow> Raises (NameError ''item'') v
           | _ \<Rightarrow> Raises StoreError v))"

fun run_callbacks :: "callback list \<Rightarrow> change \<Rightarrow> viewer \<Rightarrow> unit outcome" where
  "run_callbacks [] x v = Returns () v"
| "run_callbacks (cb # cbs) x v = then_do (run_callback cb x v) (\<lambda>_. run_callbacks cbs x)"

text \<open>
  The user ticks or unticks the checkbox \<open>r\<close>: when the value changes, the widget library
  stores the new value and notifies the observers of the trait \<^verbatim>\<open>value\<close>.
\<close>

definition set_checkbox :: "ref \<Rightarrow> bool \<Rightarrow> viewer \<Rightarrow> unit outcome" where
  "set_checkbox r b v =
     (case lookup v r of
        Some (Checkbox old d l obs) \<Rightarrow>
          if b = old then Returns () v
          else run_callbacks obs (Change old b) (put r (Checkbox b d l obs) v)
      | _ \<Rightarrow> Raises StoreError v)"

subsection \<open>The scene-object plugin module\<close>

text \<open>
  \<^verbatim>\<open>compas_pythreejs/scene/__init__.py\<close>. The registry of the geometry framework maps a
  context and a geometry type to an adapter class; \<^verbatim>\<open>register\<close> is the framework's
  function that stores an entry. The decorator \<^verbatim>\<open>plugin\<close> marks a function as a hook of
  the framework's plugin protocol, it does not call it. Importing the module runs the
  top-level statements: the imports, the three decorated definitions and \<^verbatim>\<open>__all__\<close>.
\<close>

datatype geometry_type = Box

datatype adapter = BoxObject | PyThreeJSSceneObject

record plugin_hook =
  hook_function :: string
  hook_category :: string
  hook_pluggable_name :: "string option"
  hook_requires :: "string list"

record process =
  registry :: "string \<times> geometry_type \<Rightarrow> adapter option"
  stdout :: "string list"
  hooks :: "plugin_hook list"
  exported :: "string list"

definition register :: "geometry_type \<Rightarrow> adapter \<Rightarrow> string \<Rightarrow> process \<Rightarrow> process" where
  "register geometry sceneobject_type ctx p =
     p\<lparr>registry := (registry p)((ctx, geometry) \<mapsto> sceneobject_type)\<rparr>"

definition print :: "string \<Rightarrow> process \<Rightarrow> process" where
  "print s p = p\<lparr>stdout := stdout p @ [s]\<rparr>"

definition clear_pythreejs :: "nat list option \<Rightarrow> process \<Rightarrow> process" where
  "clear_pythreejs guids_arg p = p"

definition redraw_pythreejs :: "process \<Rightarrow> process" where
  "redraw_pythreejs p = p"

definition register_scene_objects :: "process \<Rightarrow> process" where
  "register_scene_objects p =
     print ''PyThreeJS SceneObjects registered.'' (register Box BoxObject ''Notebook'' p)"

definition plugin :: "string \<Rightarrow> string option \<Rightarrow> string list \<Rightarrow> string \<Rightarrow> process \<Rightarrow> process" where
  "plugin category pluggable_name requires f p =
     p\<lparr>hooks := hooks p @
        [\<lparr>hook_function = f, hook_category = category,
          hook_pluggable_name = pluggable_name, hook_requires = requires\<rparr>]\<rparr>"

definition import_module :: "process \<Rightarrow> process" where
  "import_module p =
     (let p1 = plugin ''drawing-utils'' (Some ''clear'') [''pythreejs''] ''clear_pythreejs'' p;
          p2 = plugin ''drawing-utils'' (Some ''redraw'') [''pythreejs''] ''redraw_pythreejs'' p1;
          p3 = plugin ''factories'' None [''pythreejs''] ''register_scene_objects'' p2
      in p3\<lparr>exported := [''PyThreeJSSceneObject'', ''BoxObject'']\<rparr>)"

definition empty_process :: process where
  "empty_process = \<lparr>registry = (\<lambda>k. None), stdout = [], hooks = [], exported = []\<rparr>"

section \<open>Notions for the statements\<close>

subsection \<open>Observations on outcomes and objects\<close>

fun state_of :: "'a outcome \<Rightarrow> viewer" where
  "state_of (Returns x v) = v"
| "state_of (Raises e v) = v"

fun returns :: "'a outcome \<Rightarrow> bool" where
  "returns (Returns x v) = True"
| "returns (Raises e v) = False"

text \<open>The helpers that \<^verbatim>\<open>update\<close> adds again: the grid and the axes, each if its flag is set.\<close>

definition helper_handles :: "viewer \<Rightarrow> handle list" where
  "helper_handles v =
     (if show_grid (view (config v))
      then (case grid3 v of None \<Rightarrow> [] | Some g \<Rightarrow> [Local g]) else []) @
     (if show_axes (view (config v))
      then (case axes3 v of None \<Rightarrow> [] | Some a \<Rightarrow> [Local a]) else [])"

text \<open>An object of the 3D scene graph itself: the graph, the grid or the axes.\<close>

fun scene_part :: "obj \<Rightarrow> bool" where
  "scene_part (Scene3 bg cs) = True"
| "scene_part (GridHelper g) = True"
| "scene_part (AxesHelper a) = True"
| "scene_part ob = False"

text \<open>The widgets a container widget holds.\<close>

fun widget_children :: "obj \<Rightarrow> ref list" where
  "widget_children (Container k l cs) = cs"
| "widget_children ob = []"

subsection \<open>Renaming of references\<close>

text \<open>
  Renaming of references: \<open>shift_obj d\<close> adds \<open>d\<close> to every reference an object holds.
  The handles of the scene objects are not references of the store and stay as they are.
\<close>

fun shift_callback :: "nat \<Rightarrow> callback \<Rightarrow> callback" where
  "shift_callback d (Controller_call name) = Controller_call name"
| "shift_callback d (Action_closure c) = Action_closure (c + d)"

fun shift_handle :: "nat \<Rightarrow> handle \<Rightarrow> handle" where
  "shift_handle d (Local r) = Local (r + d)"
| "shift_handle d (Guid g) = Guid g"

fun shift_obj :: "nat \<Rightarrow> obj \<Rightarrow> obj" where
  "shift_obj d (Container k l cs) = Container k l (map (\<lambda>r. r + d) cs)"
| "shift_obj d (Button i t l cbs) = Button i t l (map (shift_callback d) cbs)"
| "shift_obj d (Checkbox b t l cbs) = Checkbox b t l (map (shift_callback d) cbs)"
| "shift_obj d (Scene3 bg cs) = Scene3 bg (map (shift_handle d) cs)"
| "shift_obj d (OrbitControls k) = OrbitControls (k\<lparr>controlling := controlling k + d\<rparr>)"
| "shift_obj d (Renderer r) =
     Renderer (r\<lparr>r_scene := r_scene r + d, r_camera := r_camera r + d,
                r_controls := map (\<lambda>r. r + d) (r_controls r)\<rparr>)"
| "shift_obj d ob = ob"

subsection \<open>Closed forms\<close>

text \<open>
  Auxiliary notions for the proofs. \<open>checkbox_items\<close> are the descriptors for which the
  loop of \<^verbatim>\<open>make_sidebar\<close> builds a checkbox; \<open>the_items\<close> reads the configured list, with
  \<^verbatim>\<open>None\<close> as the empty list; \<open>checkbox_of c it\<close> is the checkbox the loop builds for the
  descriptor \<open>it\<close> when its cell is \<open>c\<close>.
\<close>

definition checkbox_items :: "item list \<Rightarrow> item list" where
  "checkbox_items its = filter (\<lambda>it. item_type it = ''checkbox'') its"

definition the_items :: "viewer \<Rightarrow> item list" where
  "the_items v = (case sidebar_items (sidebar (ui (config v))) of None \<Rightarrow> [] | Some its \<Rightarrow> its)"

definition checkbox_of :: "ref \<Rightarrow> item \<Rightarrow> obj" where
  "checkbox_of c it = Checkbox (item_value it) (item_text it) item_layout [Action_closure c]"

text \<open>
  Closed forms, for the proofs: the objects each method appends to a store of length \<open>n\<close>,
  in the order of their creation, and the references at which they stand.
\<close>

definition toolbar_objs :: "ref \<Rightarrow> obj list" where
  "toolbar_objs n =
     [Button ''folder-open'' ''Load scene'' button_layout [Controller_call ''load_scene''],
      Button ''save'' ''Load scene'' button_layout [Controller_call ''save_scene''],
      Button ''search-plus'' ''Zoom in'' button_layout [Controller_call ''zoom_in''],
      Button ''search-minus'' ''Zoom out'' button_layout [Controller_call ''zoom_out''],
      Container HBox
        [(''display'', ''flex''), (''flex_flow'', ''row''), (''align_items'', ''center''),
         (''width'', ''auto''), (''height'', ''48px''), (''padding'', ''0px 0px 0px 0px''),
         (''margin'', ''0px 0px 16px 0px'')]
        [n, n + 1, n + 2, n + 3]]"

definition statusbar_objs :: "ref \<Rightarrow> obj list" where
  "statusbar_objs n =
     [Text \<lparr>text_value = [], text_placeholder = ''...'', text_description = [],
            text_disabled = True,
            text_layout = [(''width'', ''100%''), (''height'', ''32px''),
                           (''padding'', ''0px 0px 0px 0px''),
                           (''margin'', ''0px 0px 0px 0px'')],
            text_style = [(''background'', ''#eeeeee'')]\<rparr>,
      Container HBox
        [(''display'', ''flex''), (''flex_flow'', ''row''), (''align_items'', ''flex-start''),
         (''width'', ''auto''), (''height'', ''48px''), (''padding'', ''0px 0px 0px 0px''),
         (''margin'', ''0px 0px 0px 0px'')]
        [n]]"

definition checkbox_refs :: "ref \<Rightarrow> item list \<Rightarrow> ref list" where
  "checkbox_refs n its = [n + 2 ..< n + 2 + length (checkbox_items its)]"

definition sidebar_objs :: "ref \<Rightarrow> int \<Rightarrow> item list \<Rightarrow> obj list" where
  "sidebar_objs n h its =
     [Cell (if its = [] then None else Some (last its)),
      Container GridBox (sidebar_layout h) (checkbox_refs n its)] @
     map (checkbox_of n) (checkbox_items its)"

definition row_layout :: "int \<Rightarrow> layout" where
  "row_layout h = [(''width'', ''auto''), (''height'', px (h + 4))]"

definition main_objs :: "ref \<Rightarrow> config \<Rightarrow> item list \<Rightarrow> ref \<Rightarrow> obj list" where
  "main_objs n cfg its r =
     (let h = height (view cfg);
          side = (if sidebar_show (sidebar (ui cfg)) then sidebar_objs n h its else [])
      in side @
         [Container PlainBox (row_layout h) [r],
          Container HBox (row_layout h)
            ((if sidebar_show (sidebar (ui cfg)) then [n + 1] else []) @ [n + length side])])"

definition side_size :: "config \<Rightarrow> item list \<Rightarrow> nat" where
  "side_size cfg its =
     (if sidebar_show (sidebar (ui cfg)) then 2 + length (checkbox_items its) else 0)"

definition main_ref :: "ref \<Rightarrow> config \<Rightarrow> item list \<Rightarrow> ref" where
  "main_ref n cfg its = n + side_size cfg its + 1"

definition ui_height :: "config \<Rightarrow> int" where
  "ui_height cfg =
     height (view cfg) + (if show_toolbar (ui cfg) then 64 else 0) +
     (if show_statusbar (ui cfg) then 48 else 0) + 4"

definition ui_main_ref :: "ref \<Rightarrow> config \<Rightarrow> item list \<Rightarrow> ref" where
  "ui_main_ref n cfg its = main_ref (n + 1 + (if show_toolbar (ui cfg) then 5 else 0)) cfg its"

definition ui_objs :: "ref \<Rightarrow> config \<Rightarrow> item list \<Rightarrow> ref \<Rightarrow> obj list" where
  "ui_objs n cfg its r =
     (let m = ui_main_ref n cfg its in
      [Container VBox [(''width'', ''auto''), (''height'', px (ui_height cfg))]
         ((if show_toolbar (ui cfg) then [n + 5] else []) @ [m] @
          (if show_statusbar (ui cfg) then [m + 2] else []))] @
      (if show_toolbar (ui cfg) then toolbar_objs (n + 1) else []) @
      main_objs (n + 1 + (if show_toolbar (ui cfg) then 5 else 0)) cfg its r @
      (if show_statusbar (ui cfg) then statusbar_objs (m + 1) else []))"

definition supported :: "config \<Rightarrow> bool" where
  "supported cfg \<longleftrightarrow> viewport (view cfg) = ''top'' \<or> viewport (view cfg) = ''perspective''"

definition axes_ref :: "ref \<Rightarrow> config \<Rightarrow> ref" where
  "axes_ref n cfg = n + 1 + (if show_grid (view cfg) then 1 else 0)"

definition camera_ref :: "ref \<Rightarrow> config \<Rightarrow> ref" where
  "camera_ref n cfg = axes_ref n cfg + (if show_axes (view cfg) then 1 else 0)"

definition helper_refs :: "ref \<Rightarrow> config \<Rightarrow> handle list" where
  "helper_refs n cfg =
     (if show_grid (view cfg) then [Local (n + 1)] else []) @
     (if show_axes (view cfg) then [Local (axes_ref n cfg)] else [])"

definition scene_objs :: "config \<Rightarrow> handle list \<Rightarrow> obj list" where
  "scene_objs cfg cs =
     [Scene3 (background (view cfg)) cs] @
     (if show_grid (view cfg)
      then [GridHelper \<lparr>grid_size = 20, grid_divisions = 20, colorCenterLine = Grey_hex,
                        colorGrid = Grey_lightened_hex 50, grid_rotateX = 3.14159 / 2\<rparr>]
      else []) @
     (if show_axes (view cfg) then [AxesHelper 0.5] else [])"

definition camera_obj :: "config \<Rightarrow> obj" where
  "camera_obj cfg =
     (let w = width (view cfg); h = height (view cfg); cam = camera (view cfg) in
      if viewport (view cfg) = ''top''
      then OrthographicCamera
             \<lparr>o_left = of_int w / (- 2), o_right = of_int w / 2,
              o_top = of_int h / 2, o_bottom = of_int h / (- 2),
              o_near = 0.1, o_far = 10000,
              o_position = or_vec (cam_position cam) [0, 0, 1], o_zoom = 1\<rparr>
      else PerspectiveCamera
             \<lparr>p_position = or_vec (cam_position cam) [0, - 10, 5],
              p_up = or_vec (cam_up cam) [0, 0, 1],
              p_aspect = of_int w / of_int h,
              p_near = or_num (cam_near cam) 0.1,
              p_far = or_num (cam_far cam) 1000,
              p_fov = or_num (cam_fov cam) 50,
              p_lookAt = or_vec (cam_target cam) [0, 0, 0]\<rparr>)"

definition webgl_objs :: "ref \<Rightarrow> config \<Rightarrow> handle list \<Rightarrow> obj list" where
  "webgl_objs n cfg cs =
     scene_objs cfg cs @
     [camera_obj cfg,
      OrbitControls \<lparr>controlling = camera_ref n cfg,
                     enableRotate = (viewport (view cfg) \<noteq> ''top''),
                     maxDistance = 1000, minDistance = 0.1\<rparr>,
      Renderer \<lparr>r_scene = n, r_camera = camera_ref n cfg,
                r_controls = [camera_ref n cfg + 1],
                r_width = width (view cfg), r_height = height (view cfg),
                antialias = True\<rparr>]"

text \<open>The state that a \<^verbatim>\<open>show()\<close> without error leaves, in closed form.\<close>

definition ui_ref :: "viewer \<Rightarrow> ref" where
  "ui_ref v = camera_ref (length (store v)) (config v) + 3"

definition shown :: "(scene \<Rightarrow> scene) \<Rightarrow> viewer \<Rightarrow> viewer" where
  "shown draw v =
     (let n = length (store v); cfg = config v; its = the_items v;
          c = camera_ref n cfg; u = ui_ref v; m = ui_main_ref u cfg its
      in v\<lparr>scene := draw (scene v),
           toolbar := (if show_toolbar (ui cfg) then Some (u + 5) else toolbar v),
           main := Some m,
           statusbar := (if show_statusbar (ui cfg) then Some (m + 2) else statusbar v),
           statustext := (if show_statusbar (ui cfg) then Some (m + 1) else statustext v),
           scene3 := Some n,
           grid3 := (if show_grid (view cfg) then Some (n + 1) else grid3 v),
           axes3 := (if show_axes (view cfg) then Some (axes_ref n cfg) else axes3 v),
           camera3 := Some c,
           controls3 := Some (c + 1),
           renderer3 := Some (c + 2),
           ui_root := Some u,
           store := store v @
                    webgl_objs n cfg (helper_refs n cfg @ scene_handles (draw (scene v))) @
                    ui_objs u cfg its (c + 2),
           displayed := displayed v @ [u]\<rparr>)"

section \<open>Example inputs\<close>

definition example_items :: "item list" where
  "example_items =
     [\<lparr>item_type = ''checkbox'', item_action = ''toggle_grid'', item_value = True,
       item_text = ''Show grid''\<rparr>,
      \<lparr>item_type = ''checkbox'', item_action = ''toggle_axes'', item_value = True,
       item_text = ''Show axes''\<rparr>]"

definition example_config :: config where
  "example_config =
     \<lparr>view = \<lparr>width = 800, height = 500, background = ''#eeeeee'', show_grid = True,
              show_axes = True, viewport = ''perspective'',
              camera = \<lparr>cam_position = None, cam_up = None, cam_near = None,
                        cam_far = None, cam_fov = None, cam_target = None\<rparr>\<rparr>,
      ui = \<lparr>show_toolbar = True, show_statusbar = True,
            sidebar = \<lparr>sidebar_show = True, sidebar_items = Some example_items\<rparr>\<rparr>\<rparr>"

definition example_controller :: controller where
  "example_controller =
     \<lparr>methods = [''load_scene'', ''save_scene'', ''zoom_in'', ''zoom_out'',
                 ''toggle_grid'', ''toggle_axes'']\<rparr>"

definition example_scene :: scene where
  "example_scene = [\<lparr>guids = [100, 101]\<rparr>, \<lparr>guids = [102]\<rparr>]"

definition example_viewer :: viewer where
  "example_viewer =
     Viewer_init empty_world example_config example_controller None (Some example_scene) None"

definition example_shown :: viewer where
  "example_shown = state_of (show_viewer id example_viewer)"

definition with_view :: "(view_config \<Rightarrow> view_config) \<Rightarrow> viewer \<Rightarrow> viewer" where
  "with_view f v = v\<lparr>config := (config v)\<lparr>view := f (view (config v))\<rparr>\<rparr>"

text \<open>The example viewer with the viewport "front", which the viewer does not support.\<close>

definition front_viewer :: viewer where
  "front_viewer = with_view (\<lambda>c. c\<lparr>viewport := ''front''\<rparr>) example_viewer"

text \<open>The same with a view of height zero, and the example viewer itself with height zero
  and the viewport "top".\<close>

definition flat_front_viewer :: viewer where
  "flat_front_viewer = with_view (\<lambda>c. c\<lparr>height := 0\<rparr>) front_viewer"

definition flat_top_viewer :: viewer where
  "flat_top_viewer = with_view (\<lambda>c. c\<lparr>height := 0, viewport := ''top''\<rparr>) example_viewer"

text \<open>The example viewer with the near plane of the camera configured as 0.\<close>

definition near_zero_viewer :: viewer where
  "near_zero_viewer =
     with_view (\<lambda>c. c\<lparr>camera := (camera c)\<lparr>cam_near := Some 0\<rparr>\<rparr>) example_viewer"

definition example_webgl :: viewer where
  "example_webgl = state_of (init_webgl example_viewer)"

text \<open>A configuration with every panel of the user interface switched off.\<close>

definition plain_config :: config where
  "plain_config =
     example_config\<lparr>ui := \<lparr>show_toolbar = False, show_statusbar = False,
                              sidebar = \<lparr>sidebar_show = False, sidebar_items = None\<rparr>\<rparr>\<rparr>"

section \<open>Properties\<close>

subsection \<open>Helper facts\<close>

lemma update_without_scene3:
  "scene3 v = None \<Longrightarrow> update draw v = Raises (AttributeError ''scene3'') v"
  by (simp add: update_def get_attr_def then_do_def)

subsection \<open>Outcomes and the store\<close>

lemma then_do_Returns [simp]: "then_do (Returns x v) f = f x v"
  by (simp add: then_do_def)

lemma then_do_Raises [simp]: "then_do (Raises e v) f = Raises e v"
  by (simp add: then_do_def)

lemma returns_unit: "returns m \<Longrightarrow> m = Returns () (state_of m)"
  by (cases m) simp_all

lemmas prim = lookup_def put_def alloc_def next_ref_def get_attr_def

subsection \<open>The children of the 3D scene graph\<close>

lemma children3_Scene3:
  "s < length (store v) \<Longrightarrow> store v ! s = Scene3 bg cs \<Longrightarrow> children3 s v = Returns cs v"
  by (simp add: children3_def prim)

lemma children3_other:
  "\<forall>bg cs. lookup v r \<noteq> Some (Scene3 bg cs) \<Longrightarrow> children3 r v = Raises StoreError v"
  by (auto simp add: children3_def split: option.splits obj.splits)

lemma set_children3_Scene3:
  "s < length (store v) \<Longrightarrow> store v ! s = Scene3 bg cs \<Longrightarrow>
   set_children3 s cs' v = Returns () (v\<lparr>store := (store v)[s := Scene3 bg cs']\<rparr>)"
  by (simp add: set_children3_def prim)

lemma add3_Scene3:
  "s < length (store v) \<Longrightarrow> store v ! s = Scene3 bg cs \<Longrightarrow>
   add3 s h v = Returns () (v\<lparr>store := (store v)[s := Scene3 bg (cs @ [h])]\<rparr>)"
  by (simp add: add3_def children3_Scene3 set_children3_Scene3)

lemma remove3_Scene3:
  "s < length (store v) \<Longrightarrow> store v ! s = Scene3 bg cs \<Longrightarrow>
   remove3 s h v =
     Returns () (v\<lparr>store := (store v)[s := Scene3 bg (filter (\<lambda>c. c \<noteq> h) cs)]\<rparr>)"
  by (simp add: remove3_def children3_Scene3 set_children3_Scene3)

lemma add_all_Scene3:
  "s < length (store v) \<Longrightarrow> store v ! s = Scene3 bg cs \<Longrightarrow>
   add_all s hs v = Returns () (v\<lparr>store := (store v)[s := Scene3 bg (cs @ hs)]\<rparr>)"
proof (induction hs arbitrary: v cs)
  case Nil
  from Nil(2) [symmetric] show ?case by simp
next
  case (Cons h hs)
  let ?v1 = "v\<lparr>store := (store v)[s := Scene3 bg (cs @ [h])]\<rparr>"
  have "s < length (store ?v1)" "store ?v1 ! s = Scene3 bg (cs @ [h])"
    using Cons.prems by simp_all
  from Cons.IH [OF this] show ?case
    using Cons.prems by (simp add: add3_Scene3)
qed

lemma remove_all_Scene3:
  "s < length (store v) \<Longrightarrow> store v ! s = Scene3 bg cs \<Longrightarrow>
   remove_all s hs v =
     Returns () (v\<lparr>store := (store v)[s := Scene3 bg
                    (foldl (\<lambda>cs h. filter (\<lambda>c. c \<noteq> h) cs) cs hs)]\<rparr>)"
proof (induction hs arbitrary: v cs)
  case Nil
  from Nil(2) [symmetric] show ?case by simp
next
  case (Cons h hs)
  let ?v1 = "v\<lparr>store := (store v)[s := Scene3 bg (filter (\<lambda>c. c \<noteq> h) cs)]\<rparr>"
  have "s < length (store ?v1)" "store ?v1 ! s = Scene3 bg (filter (\<lambda>c. c \<noteq> h) cs)"
    using Cons.prems by simp_all
  from Cons.IH [OF this] show ?case
    using Cons.prems by (simp add: remove3_Scene3)
qed

lemma attach_scene_Scene3:
  "scene3 v = Some s \<Longrightarrow> s < length (store v) \<Longrightarrow> store v ! s = Scene3 bg cs \<Longrightarrow>
   attach_scene v =
     Returns () (v\<lparr>store := (store v)[s := Scene3 bg (cs @ scene_handles (scene v))]\<rparr>)"
  by (simp add: attach_scene_def get_attr_def add_all_Scene3)

lemma update_other:
  "scene3 v = Some s \<Longrightarrow> \<forall>bg cs. lookup v s \<noteq> Some (Scene3 bg cs) \<Longrightarrow>
   update draw v = Raises StoreError v"
  by (simp add: update_def get_attr_def children3_other)

text \<open>
  What \<^verbatim>\<open>update\<close> does when the scene graph exists: it fails at the read of a helper
  that its flag asks for and that was never created, and otherwise returns with the
  children rebuilt.
\<close>

lemma update_Scene3:
  assumes "scene3 v = Some s" and "s < length (store v)" and "store v ! s = Scene3 bg cs"
  shows "update draw v =
    (if show_grid (view (config v)) \<and> grid3 v = None
     then Raises (AttributeError ''grid3'') (v\<lparr>store := (store v)[s := Scene3 bg []]\<rparr>)
     else if show_axes (view (config v)) \<and> axes3 v = None
     then Raises (AttributeError ''axes3'')
            (v\<lparr>store := (store v)[s := Scene3 bg (helper_handles v)]\<rparr>)
     else Returns ()
            (v\<lparr>scene := draw (scene v),
               store := (store v)[s := Scene3 bg
                  (helper_handles v @ scene_handles (draw (scene v)))]\<rparr>))"
  using assms
  by (auto simp add: update_def get_attr_def children3_Scene3 remove_all_Scene3
      set_children3_Scene3 add3_Scene3 attach_scene_Scene3 helper_handles_def)

subsection \<open>Closed forms of the user-interface methods\<close>

lemma make_toolbar_result:
  "make_toolbar v =
     Returns (length (store v) + 4) (v\<lparr>store := store v @ toolbar_objs (length (store v))\<rparr>)"
  by (simp add: make_toolbar_def toolbar_objs_def alloc_def next_ref_def)

lemma make_statusbar_result:
  "make_statusbar v =
     Returns (length (store v) + 1)
       (v\<lparr>statustext := Some (length (store v)),
          store := store v @ statusbar_objs (length (store v))\<rparr>)"
  by (simp add: make_statusbar_def statusbar_objs_def alloc_def next_ref_def)

lemma make_view3d_result:
  "renderer3 v = Some r \<Longrightarrow>
   make_view3d v =
     Returns (length (store v))
       (v\<lparr>store := store v @ [Container PlainBox (row_layout (height (view (config v)))) [r]]\<rparr>)"
  by (simp add: make_view3d_def row_layout_def alloc_def next_ref_def get_attr_def)

lemma make_view3d_raises:
  "renderer3 v = None \<Longrightarrow> make_view3d v = Raises (AttributeError ''renderer3'') v"
  by (simp add: make_view3d_def get_attr_def)

text \<open>
  The loop of \<^verbatim>\<open>make_sidebar\<close>: it appends one checkbox for each checkbox descriptor, and
  it leaves the last descriptor of the whole list in the cell.
\<close>

lemma sidebar_loop_result:
  "c < length (store v) \<Longrightarrow>
   sidebar_loop c its ch v =
     (ch @ [length (store v) ..< length (store v) + length (checkbox_items its)],
      v\<lparr>store := (if its = [] then store v else (store v)[c := Cell (Some (last its))]) @
                  map (checkbox_of c) (checkbox_items its)\<rparr>)"
proof (induction its arbitrary: ch v)
  case Nil
  then show ?case by (simp add: checkbox_items_def)
next
  case (Cons it its)
  let ?n = "length (store v)"
  let ?v1 = "v\<lparr>store := (store v)[c := Cell (Some it)]\<rparr>"
  show ?case
  proof (cases "item_type it = ''checkbox''")
    case True
    let ?v2 = "?v1\<lparr>store := store ?v1 @ [checkbox_of c it]\<rparr>"
    have lt: "c < length (store ?v2)" using Cons.prems by simp
    have ch: "(ch @ [?n]) @ [Suc ?n ..< Suc ?n + length (checkbox_items its)] =
              ch @ [?n ..< ?n + length (checkbox_items (it # its))]"
      using True by (simp add: checkbox_items_def upt_rec)
    have st: "(if its = [] then store ?v2 else (store ?v2)[c := Cell (Some (last its))]) @
                map (checkbox_of c) (checkbox_items its) =
              (store v)[c := Cell (Some (last (it # its)))] @
                map (checkbox_of c) (checkbox_items (it # its))"
      using True Cons.prems by (simp add: checkbox_items_def list_update_append)
    have step: "sidebar_loop c (it # its) ch v = sidebar_loop c its (ch @ [?n]) ?v2"
      using True by (simp add: prim checkbox_of_def)
    show ?thesis
      unfolding step Cons.IH [OF lt] using ch st by simp
  next
    case False
    have lt: "c < length (store ?v1)" using Cons.prems by simp
    have st: "(if its = [] then store ?v1 else (store ?v1)[c := Cell (Some (last its))]) @
                map (checkbox_of c) (checkbox_items its) =
              (store v)[c := Cell (Some (last (it # its)))] @
                map (checkbox_of c) (checkbox_items (it # its))"
      using False by (simp add: checkbox_items_def)
    have step: "sidebar_loop c (it # its) ch v = sidebar_loop c its ch ?v1"
      using False by (simp add: prim)
    show ?thesis
      unfolding step Cons.IH [OF lt] using False st by (simp add: checkbox_items_def)
  qed
qed

lemma loop_items:
  "(case items of None \<Rightarrow> ([], v2)
    | Some its \<Rightarrow> if its = [] then ([], v2) else sidebar_loop c its [] v2) =
   sidebar_loop c (case items of None \<Rightarrow> [] | Some its \<Rightarrow> its) [] v2"
  by (cases items) auto

lemma make_sidebar_result:
  "make_sidebar v =
     Returns (length (store v) + 1)
       (v\<lparr>store := store v @
            sidebar_objs (length (store v)) (height (view (config v))) (the_items v)\<rparr>)"
proof -
  let ?n = "length (store v)"
  let ?lay = "sidebar_layout (height (view (config v)))"
  let ?v2 = "v\<lparr>store := store v @ [Cell None, Container GridBox ?lay []]\<rparr>"
  let ?k = "length (checkbox_items (the_items v))"
  have lt: "?n < length (store ?v2)" by simp
  have 1: "make_sidebar v =
      (case sidebar_loop ?n (the_items v) [] ?v2 of
         (children, v3) \<Rightarrow> Returns (?n + 1) (put (?n + 1) (Container GridBox ?lay children) v3))"
    by (simp add: make_sidebar_def alloc_def next_ref_def Let_def loop_items the_items_def)
  have 2: "((if the_items v = [] then store ?v2
             else (store ?v2)[?n := Cell (Some (last (the_items v)))]) @
            map (checkbox_of ?n) (checkbox_items (the_items v)))
           [?n + 1 := Container GridBox ?lay ([] @ [length (store ?v2) ..< length (store ?v2) + ?k])] =
           store v @ sidebar_objs ?n (height (view (config v))) (the_items v)"
    by (simp add: sidebar_objs_def checkbox_refs_def list_update_append)
  show ?thesis
    unfolding 1 sidebar_loop_result [OF lt] using 2 by (simp add: put_def)
qed

lemma length_sidebar_objs [simp]:
  "length (sidebar_objs n h its) = 2 + length (checkbox_items its)"
  by (simp add: sidebar_objs_def)

lemma length_toolbar_objs [simp]: "length (toolbar_objs n) = 5"
  by (simp add: toolbar_objs_def)

lemma length_statusbar_objs [simp]: "length (statusbar_objs n) = 2"
  by (simp add: statusbar_objs_def)

lemma length_main_objs [simp]: "length (main_objs n cfg its r) = side_size cfg its + 2"
  by (simp add: main_objs_def side_size_def Let_def)

lemma length_ui_objs:
  "length (ui_objs n cfg its r) =
     (if show_toolbar (ui cfg) then 5 else 0) + side_size cfg its +
     (if show_statusbar (ui cfg) then 2 else 0) + 3"
  by (simp add: ui_objs_def Let_def)

lemma the_items_update [simp]:
  "the_items (store_update f v) = the_items v"
  "the_items (ui_root_update g v) = the_items v"
  "the_items (toolbar_update g v) = the_items v"
  "the_items (main_update g v) = the_items v"
  by (simp_all add: the_items_def)

lemma make_main_result:
  assumes "renderer3 v = Some r"
  shows "make_main v =
     Returns (main_ref (length (store v)) (config v) (the_items v))
       (v\<lparr>store := store v @ main_objs (length (store v)) (config v) (the_items v) r\<rparr>)"
proof (cases "sidebar_show (sidebar (ui (config v)))")
  case True
  then show ?thesis
    using assms
    by (simp add: make_main_def make_sidebar_result make_view3d_result main_objs_def
        main_ref_def side_size_def row_layout_def alloc_def next_ref_def Let_def)
next
  case False
  then show ?thesis
    using assms
    by (simp add: make_main_def make_view3d_result main_objs_def
        main_ref_def side_size_def row_layout_def alloc_def next_ref_def Let_def)
qed

lemma make_main_raises:
  assumes "renderer3 v = None"
  shows "\<not> returns (make_main v)"
  using assms
  by (cases "sidebar_show (sidebar (ui (config v)))")
     (simp_all add: make_main_def make_sidebar_result make_view3d_raises)

text \<open>
  \<^verbatim>\<open>init_ui\<close> returns when the renderer exists, and then it appends the widgets of
  \<open>ui_objs\<close> and sets the attributes of the panels it builds; without a renderer it
  raises.
\<close>

lemma init_ui_result:
  assumes "renderer3 v = Some r"
  shows "init_ui v =
     Returns ()
       (v\<lparr>toolbar := (if show_toolbar (ui (config v)) then Some (length (store v) + 5)
                      else toolbar v),
          main := Some (ui_main_ref (length (store v)) (config v) (the_items v)),
          statusbar := (if show_statusbar (ui (config v))
                        then Some (ui_main_ref (length (store v)) (config v) (the_items v) + 2)
                        else statusbar v),
          statustext := (if show_statusbar (ui (config v))
                         then Some (ui_main_ref (length (store v)) (config v) (the_items v) + 1)
                         else statustext v),
          ui_root := Some (length (store v)),
          store := store v @ ui_objs (length (store v)) (config v) (the_items v) r\<rparr>)"
  using assms
  apply (cases "show_toolbar (ui (config v))"; cases "show_statusbar (ui (config v))")
     apply (simp_all add: init_ui_def alloc_def next_ref_def make_toolbar_result
            make_main_result make_statusbar_result put_def Let_def)
     apply (simp_all add: ui_objs_def ui_main_ref_def ui_height_def main_ref_def Let_def add_ac)
  done

lemma then_do_not_returns: "\<not> returns m \<Longrightarrow> \<not> returns (then_do m f)"
  by (cases m) simp_all

lemma init_ui_raises:
  assumes "renderer3 v = None"
  shows "\<not> returns (init_ui v)"
  using assms
  by (cases "show_toolbar (ui (config v))")
     (simp_all add: init_ui_def alloc_def next_ref_def make_toolbar_result Let_def
       then_do_not_returns make_main_raises)

subsection \<open>Closed forms of the WebGL set-up and of show\<close>

lemma length_scene_objs:
  "length (scene_objs cfg cs) = camera_ref 0 cfg"
  by (simp add: scene_objs_def camera_ref_def axes_ref_def)

lemma init_webgl_zero:
  "height (view (config v)) = 0 \<Longrightarrow> init_webgl v = Raises ZeroDivisionError v"
  by (simp add: init_webgl_def)

lemma init_webgl_scene:
  assumes "height (view (config v)) \<noteq> 0"
  shows "init_webgl v =
    then_do (init_camera (width (view (config v))) (height (view (config v)))
               (of_int (width (view (config v))) / of_int (height (view (config v))))
       (v\<lparr>scene3 := Some (length (store v)),
        grid3 := (if show_grid (view (config v)) then Some (length (store v) + 1) else grid3 v),
        axes3 := (if show_axes (view (config v)) then Some (axes_ref (length (store v)) (config v))
                  else axes3 v),
        store := store v @ scene_objs (config v) (helper_refs (length (store v)) (config v))\<rparr>))
      (\<lambda>_. init_renderer (width (view (config v))) (height (view (config v))))"
proof -
  have swap: "v\<lparr>store := xs, scene3 := x\<rparr> = v\<lparr>scene3 := x, store := xs\<rparr>" for xs x
    by simp
  show ?thesis
    using assms
    by (cases "show_grid (view (config v))"; cases "show_axes (view (config v))")
       (simp_all add: init_webgl_def init_grid_def init_axes_def alloc_def next_ref_def
          add3_Scene3 nth_append scene_objs_def helper_refs_def axes_ref_def list_update_append
          Let_def swap)
qed

lemma init_webgl_unsupported:
  assumes "height (view (config v)) \<noteq> 0" and "\<not> supported (config v)"
  shows "init_webgl v = Raises NotImplementedError
       (v\<lparr>scene3 := Some (length (store v)),
        grid3 := (if show_grid (view (config v)) then Some (length (store v) + 1) else grid3 v),
        axes3 := (if show_axes (view (config v)) then Some (axes_ref (length (store v)) (config v))
                  else axes3 v),
        store := store v @ scene_objs (config v) (helper_refs (length (store v)) (config v))\<rparr>)"
  using assms(2) by (simp add: init_webgl_scene [OF assms(1)] init_camera_def supported_def)

lemma init_webgl_result:
  assumes "height (view (config v)) \<noteq> 0" and "supported (config v)"
  shows "init_webgl v = Returns ()
       (v\<lparr>scene3 := Some (length (store v)),
        grid3 := (if show_grid (view (config v)) then Some (length (store v) + 1) else grid3 v),
        axes3 := (if show_axes (view (config v)) then Some (axes_ref (length (store v)) (config v))
                  else axes3 v),
        camera3 := Some (camera_ref (length (store v)) (config v)),
        controls3 := Some (camera_ref (length (store v)) (config v) + 1),
        renderer3 := Some (camera_ref (length (store v)) (config v) + 2),
        store := store v @
          webgl_objs (length (store v)) (config v) (helper_refs (length (store v)) (config v))\<rparr>)"
proof (cases "viewport (view (config v)) = ''top''")
  case True
  then show ?thesis
    by (simp add: init_webgl_scene [OF assms(1)] init_camera_def init_renderer_def
        alloc_def next_ref_def get_attr_def Let_def webgl_objs_def camera_obj_def
        length_scene_objs camera_ref_def axes_ref_def add_ac)
next
  case False
  with assms(2) have "viewport (view (config v)) = ''perspective''"
    by (simp add: supported_def)
  with False show ?thesis
    by (simp add: init_webgl_scene [OF assms(1)] init_camera_def init_renderer_def
        alloc_def next_ref_def get_attr_def Let_def webgl_objs_def camera_obj_def
        length_scene_objs camera_ref_def axes_ref_def add_ac)
qed


lemma length_webgl_objs: "length (webgl_objs n cfg cs) = camera_ref 0 cfg + 3"
  by (simp add: webgl_objs_def length_scene_objs)

lemma camera_ref_shift: "camera_ref n cfg = n + camera_ref 0 cfg"
  by (simp add: camera_ref_def axes_ref_def)

lemma webgl_objs_children:
  "(xs @ webgl_objs n cfg cs @ ys)[length xs := Scene3 (background (view cfg)) cs'] =
   xs @ webgl_objs n cfg cs' @ ys"
  by (simp add: webgl_objs_def scene_objs_def list_update_append)

lemma webgl_objs_scene:
  "(xs @ webgl_objs n cfg cs @ ys) ! length xs = Scene3 (background (view cfg)) cs"
  by (simp add: webgl_objs_def scene_objs_def nth_append)

lemma show_zero:
  "height (view (config v)) = 0 \<Longrightarrow> show_viewer draw v = Raises ZeroDivisionError v"
  by (simp add: show_viewer_def init_webgl_zero)

lemma show_unsupported:
  assumes "height (view (config v)) \<noteq> 0" and "\<not> supported (config v)"
  shows "show_viewer draw v = Raises NotImplementedError
       (v\<lparr>scene3 := Some (length (store v)),
        grid3 := (if show_grid (view (config v)) then Some (length (store v) + 1) else grid3 v),
        axes3 := (if show_axes (view (config v)) then Some (axes_ref (length (store v)) (config v))
                  else axes3 v),
        store := store v @ scene_objs (config v) (helper_refs (length (store v)) (config v))\<rparr>)"
  by (simp add: show_viewer_def init_webgl_unsupported [OF assms])

lemma show_result:
  assumes "height (view (config v)) \<noteq> 0" and "supported (config v)"
  shows "show_viewer draw v = Returns () (shown draw v)"
proof -
  let ?n = "length (store v)"
  let ?cfg = "config v"
  let ?c = "camera_ref ?n ?cfg"
  let ?bg = "background (view ?cfg)"
  let ?v1 = "v\<lparr>scene3 := Some ?n,
        grid3 := (if show_grid (view ?cfg) then Some (?n + 1) else grid3 v),
        axes3 := (if show_axes (view ?cfg) then Some (axes_ref ?n ?cfg) else axes3 v),
        camera3 := Some ?c, controls3 := Some (?c + 1), renderer3 := Some (?c + 2),
        store := store v @ webgl_objs ?n ?cfg (helper_refs ?n ?cfg)\<rparr>"
  have r: "renderer3 ?v1 = Some (?c + 2)" by simp
  have len: "length (store ?v1) = ui_ref v"
    by (simp add: ui_ref_def length_webgl_objs camera_ref_shift [of ?n])
  have items: "the_items ?v1 = the_items v" by (simp add: the_items_def)
  define v3 where "v3 = ?v1
       \<lparr>toolbar := (if show_toolbar (ui (config ?v1)) then Some (ui_ref v + 5)
                      else toolbar ?v1),
          main := Some (ui_main_ref (ui_ref v) (config ?v1) (the_items v)),
          statusbar := (if show_statusbar (ui (config ?v1))
                        then Some (ui_main_ref (ui_ref v) (config ?v1) (the_items v) + 2)
                        else statusbar ?v1),
          statustext := (if show_statusbar (ui (config ?v1))
                         then Some (ui_main_ref (ui_ref v) (config ?v1) (the_items v) + 1)
                         else statustext ?v1),
          ui_root := Some (ui_ref v),
          store := store ?v1 @ ui_objs (ui_ref v) (config ?v1) (the_items v) (?c + 2)\<rparr>
       \<lparr>scene := draw (scene v)\<rparr>"
  have 1: "show_viewer draw v = then_do (attach_scene v3) (\<lambda>_. ipydisplay)"
    unfolding show_viewer_def init_webgl_result [OF assms] then_do_Returns
      init_ui_result [OF r] len items v3_def
    by simp
  have s3: "scene3 v3 = Some ?n" by (simp add: v3_def)
  have st: "store v3 = store v @ webgl_objs ?n ?cfg (helper_refs ?n ?cfg) @
              ui_objs (ui_ref v) ?cfg (the_items v) (?c + 2)"
    by (simp add: v3_def)
  have lt: "?n < length (store v3)"
    by (simp add: st length_webgl_objs)
  have nth: "store v3 ! ?n = Scene3 ?bg (helper_refs ?n ?cfg)"
    unfolding st by (rule webgl_objs_scene)
  have upd: "(store v3)[?n := Scene3 ?bg (helper_refs ?n ?cfg @ scene_handles (scene v3))] =
      store v @ webgl_objs ?n ?cfg (helper_refs ?n ?cfg @ scene_handles (draw (scene v))) @
              ui_objs (ui_ref v) ?cfg (the_items v) (?c + 2)"
    unfolding st by (simp add: webgl_objs_children v3_def)
  have 2: "show_viewer draw v =
      Returns () (v3\<lparr>store := store v @
          webgl_objs ?n ?cfg (helper_refs ?n ?cfg @ scene_handles (draw (scene v))) @
          ui_objs (ui_ref v) ?cfg (the_items v) (?c + 2),
        displayed := displayed v3 @ [ui_ref v]\<rparr>)"
    unfolding 1 attach_scene_Scene3 [OF s3 lt nth] upd
    by (simp add: ipydisplay_def get_attr_def v3_def)
  show ?thesis
    unfolding 2 by (simp add: v3_def shown_def Let_def)
qed

subsection \<open>Where the widgets of the user interface stand\<close>

lemma ui_objs_root:
  "(xs @ ui_objs (length xs) cfg its r) ! length xs =
     Container VBox [(''width'', ''auto''), (''height'', px (ui_height cfg))]
       ((if show_toolbar (ui cfg) then [length xs + 5] else []) @
        [ui_main_ref (length xs) cfg its] @
        (if show_statusbar (ui cfg) then [ui_main_ref (length xs) cfg its + 2] else []))"
  by (simp add: ui_objs_def Let_def)

lemma ui_objs_toolbar:
  "show_toolbar (ui cfg) \<Longrightarrow>
   (xs @ ui_objs (length xs) cfg its r) ! (length xs + 5) = last (toolbar_objs (length xs + 1))"
  by (simp add: ui_objs_def Let_def nth_append toolbar_objs_def)

lemma ui_objs_main:
  "(xs @ ui_objs (length xs) cfg its r) ! ui_main_ref (length xs) cfg its =
     Container HBox (row_layout (height (view cfg)))
       ((if sidebar_show (sidebar (ui cfg))
         then [length xs + (if show_toolbar (ui cfg) then 5 else 0) + 2] else []) @
        [ui_main_ref (length xs) cfg its - 1])"
  by (simp add: ui_objs_def Let_def nth_append ui_main_ref_def main_ref_def main_objs_def
      side_size_def)

lemma ui_objs_view3d:
  "(xs @ ui_objs (length xs) cfg its r) ! (ui_main_ref (length xs) cfg its - 1) =
     Container PlainBox (row_layout (height (view cfg))) [r]"
  by (simp add: ui_objs_def Let_def nth_append ui_main_ref_def main_ref_def main_objs_def
      side_size_def)

lemma ui_objs_sidebar:
  "sidebar_show (sidebar (ui cfg)) \<Longrightarrow>
   (xs @ ui_objs (length xs) cfg its r) !
     (length xs + (if show_toolbar (ui cfg) then 5 else 0) + 2) =
     Container GridBox (sidebar_layout (height (view cfg)))
       (checkbox_refs (length xs + (if show_toolbar (ui cfg) then 5 else 0) + 1) its)"
  by (simp add: ui_objs_def Let_def nth_append ui_main_ref_def main_ref_def main_objs_def
      side_size_def sidebar_objs_def)

lemma ui_objs_statustext:
  "show_statusbar (ui cfg) \<Longrightarrow>
   (xs @ ui_objs (length xs) cfg its r) ! (ui_main_ref (length xs) cfg its + 1) =
     hd (statusbar_objs (ui_main_ref (length xs) cfg its + 1))"
  by (simp add: ui_objs_def Let_def nth_append ui_main_ref_def main_ref_def
      statusbar_objs_def)

lemma ui_objs_statusbar:
  "show_statusbar (ui cfg) \<Longrightarrow>
   (xs @ ui_objs (length xs) cfg its r) ! (ui_main_ref (length xs) cfg its + 2) =
     last (statusbar_objs (ui_main_ref (length xs) cfg its + 1))"
  by (simp add: ui_objs_def Let_def nth_append ui_main_ref_def main_ref_def
      statusbar_objs_def)

lemma ui_main_ref_gt: "length xs < ui_main_ref (length xs) cfg its"
  by (simp add: ui_main_ref_def main_ref_def)

lemma ui_main_ref_lt:
  "ui_main_ref (length xs) cfg its + (if show_statusbar (ui cfg) then 2 else 0) <
     length (xs @ ui_objs (length xs) cfg its r)"
  by (simp add: ui_main_ref_def main_ref_def length_ui_objs)

lemma last_toolbar_objs:
  "last (toolbar_objs n) = Container HBox
        [(''display'', ''flex''), (''flex_flow'', ''row''), (''align_items'', ''center''),
         (''width'', ''auto''), (''height'', ''48px''), (''padding'', ''0px 0px 0px 0px''),
         (''margin'', ''0px 0px 16px 0px'')]
        [n, n + 1, n + 2, n + 3]"
  by (simp add: toolbar_objs_def)

lemma last_statusbar_objs:
  "last (statusbar_objs n) = Container HBox
        [(''display'', ''flex''), (''flex_flow'', ''row''), (''align_items'', ''flex-start''),
         (''width'', ''auto''), (''height'', ''48px''), (''padding'', ''0px 0px 0px 0px''),
         (''margin'', ''0px 0px 0px 0px'')]
        [n]"
  by (simp add: statusbar_objs_def)

lemma show_returns_shown:
  assumes "show_viewer draw v = Returns () v'"
  shows "height (view (config v)) \<noteq> 0 \<and> supported (config v) \<and> v' = shown draw v"
proof (cases "height (view (config v)) = 0")
  case True
  with assms show ?thesis by (simp add: show_zero)
next
  case h: False
  show ?thesis
  proof (cases "supported (config v)")
    case True
    with assms h show ?thesis by (simp add: show_result)
  next
    case False
    with assms h show ?thesis by (simp add: show_unsupported)
  qed
qed

lemma length_shown:
  "length (store (shown draw v)) =
     length (store v) + (camera_ref 0 (config v) + 3) +
     length (ui_objs (ui_ref v) (config v) (the_items v)
        (camera_ref (length (store v)) (config v) + 2))"
  by (simp add: shown_def Let_def length_webgl_objs)

lemma shown_frame:
  "config (shown draw v) = config v" "the_items (shown draw v) = the_items v"
  "scene (shown draw v) = draw (scene v)" "controller (shown draw v) = controller v"
  "calls (shown draw v) = calls v"
  by (simp_all add: shown_def Let_def the_items_def)

lemma hd_statusbar_objs:
  "hd (statusbar_objs n) = Text \<lparr>text_value = [], text_placeholder = ''...'',
            text_description = [], text_disabled = True,
            text_layout = [(''width'', ''100%''), (''height'', ''32px''),
                           (''padding'', ''0px 0px 0px 0px''),
                           (''margin'', ''0px 0px 0px 0px'')],
            text_style = [(''background'', ''#eeeeee'')]\<rparr>"
  by (simp add: statusbar_objs_def)



subsection \<open>Evaluation of the examples\<close>

lemmas model_defs =
  show_viewer_def init_webgl_def init_grid_def init_axes_def init_camera_def init_renderer_def
  init_ui_def make_toolbar_def make_main_def make_sidebar_def make_view3d_def make_statusbar_def
  attach_scene_def ipydisplay_def update_def add3_def remove3_def children3_def set_children3_def
  scene_handles_def set_statustext_def set_checkbox_def run_callback_def call_controller_def
  lookup_def put_def alloc_def next_ref_def get_attr_def
  or_num_def or_vec_def px_def str_int_def digits.simps
  button_layout_def item_layout_def sidebar_layout_def
  helper_handles_def

lemmas example_defs =
  example_viewer_def example_config_def example_items_def example_controller_def
  example_scene_def Viewer_init_def empty_world_def with_view_def front_viewer_def
  flat_front_viewer_def flat_top_viewer_def near_zero_viewer_def

lemma example_viewer_ok:
  "height (view (config example_viewer)) \<noteq> 0" "supported (config example_viewer)"
  by (simp_all add: example_defs supported_def)

lemma example_shown_eq: "example_shown = shown id example_viewer"
  by (simp add: example_shown_def show_result [OF example_viewer_ok])

lemma example_shown_scene3:
  "scene3 example_shown = Some 0" "0 < length (store example_shown)"
  "store example_shown ! 0 =
     Scene3 ''#eeeeee'' [Local 1, Local 2, Guid 100, Guid 101, Guid 102]"
  "helper_handles example_shown = [Local 1, Local 2]"
  "scene example_shown = example_scene"
  "show_grid (view (config example_shown))" "show_axes (view (config example_shown))"
  "grid3 example_shown = Some 1" "axes3 example_shown = Some 2"
  by (simp_all add: example_shown_eq shown_def Let_def webgl_objs_def scene_objs_def
      helper_refs_def axes_ref_def scene_handles_def helper_handles_def example_defs)

lemma example_webgl_eq:
  "renderer3 example_webgl = Some 5" "length (store example_webgl) = 6"
  "config example_webgl = example_config"
  by (simp_all add: example_webgl_def init_webgl_result [OF example_viewer_ok]
      camera_ref_def axes_ref_def length_webgl_objs) (simp_all add: example_defs)

subsection \<open>C1: the method a checkbox calls\<close>

text \<open>
  In general: after \<^verbatim>\<open>make_sidebar\<close>, a change of any of its checkboxes calls the method
  that the last descriptor of the configured list names, whatever the descriptor of the
  checkbox itself names.
\<close>

lemma checkbox_calls_last_action:
  assumes "the_items v \<noteq> []"
    and "i < length (checkbox_items (the_items v))"
    and "item_action (last (the_items v)) \<in> set (methods (controller v))"
    and "b \<noteq> item_value (checkbox_items (the_items v) ! i)"
  shows "calls (state_of (set_checkbox (length (store v) + 2 + i) b (state_of (make_sidebar v)))) =
         calls v @ [(item_action (last (the_items v)),
                     Some (Change (item_value (checkbox_items (the_items v) ! i)) b))]"
  using assms
  by (simp add: make_sidebar_result set_checkbox_def lookup_def put_def sidebar_objs_def
      nth_append checkbox_of_def run_callback_def call_controller_def)

text \<open>
  C1 says that each checkbox calls the controller method named by its own descriptor. The
  code does not: the function \<^verbatim>\<open>action\<close> reads the variable \<^verbatim>\<open>item\<close> of \<^verbatim>\<open>make_sidebar\<close>
  when it is called, and after the loop that variable holds the last descriptor of the
  list. In the example the sidebar has the checkboxes 2 ("Show grid", action
  \<^verbatim>\<open>toggle_grid\<close>) and 3 ("Show axes", action \<^verbatim>\<open>toggle_axes\<close>); unticking checkbox 2 calls
  \<^verbatim>\<open>toggle_axes\<close>.
\<close>

theorem sidebar_checkboxes_call_last_action:
  "lookup (state_of (make_sidebar example_viewer)) 1 =
     Some (Container GridBox (sidebar_layout 500) [2, 3])
   \<and> lookup (state_of (make_sidebar example_viewer)) 2 =
     Some (Checkbox True ''Show grid'' item_layout [Action_closure 0])
   \<and> calls (state_of (set_checkbox 2 False (state_of (make_sidebar example_viewer)))) =
     [(''toggle_axes'', Some (Change True False))]"
  by (simp add: model_defs example_defs)

subsection \<open>C2: the children of the scene graph after update\<close>

text \<open>After a \<^verbatim>\<open>show()\<close> that has returned, \<^verbatim>\<open>update()\<close> returns.\<close>

lemma update_after_show_returns:
  assumes "show_viewer draw v = Returns () v1"
  shows "returns (update draw' v1)"
proof -
  from show_returns_shown [OF assms] have v1: "v1 = shown draw v" by simp
  let ?n = "length (store v)"
  have s: "scene3 v1 = Some ?n" by (simp add: v1 shown_def Let_def)
  have l: "?n < length (store v1)" by (simp add: v1 length_shown length_webgl_objs)
  have o: "store v1 ! ?n = Scene3 (background (view (config v)))
       (helper_refs ?n (config v) @ scene_handles (draw (scene v)))"
    by (simp add: v1 shown_def Let_def webgl_objs_scene)
  have g: "\<not> (show_grid (view (config v1)) \<and> grid3 v1 = None)"
    "\<not> (show_axes (view (config v1)) \<and> axes3 v1 = None)"
    by (simp_all add: v1 shown_def Let_def)
  show ?thesis
    using g by (simp add: update_Scene3 [OF s l o])
qed



subsection \<open>C3: a viewport that is not supported\<close>

text \<open>
  C3, as stated, fails for a view of height zero: \<^verbatim>\<open>init_webgl\<close> computes
  \<^verbatim>\<open>width / height\<close> before it looks at the viewport, so with the viewport "front" and
  height 0 \<^verbatim>\<open>show()\<close> raises \<^verbatim>\<open>ZeroDivisionError\<close>, not \<^verbatim>\<open>NotImplementedError\<close>.
\<close>

theorem show_zero_height_counterexample:
  "viewport (view (config flat_front_viewer)) = ''front''
   \<and> show_viewer id flat_front_viewer = Raises ZeroDivisionError flat_front_viewer"
proof -
  have h: "height (view (config flat_front_viewer)) = 0" by (simp add: example_defs)
  have p: "viewport (view (config flat_front_viewer)) = ''front''" by (simp add: example_defs)
  from show_zero [OF h] p show ?thesis by simp
qed

text \<open>
  C3, amended: for every configuration with a view height other than zero and a viewport
  other than "top" and "perspective", \<^verbatim>\<open>show()\<close> raises \<^verbatim>\<open>NotImplementedError\<close> in the
  camera set-up of \<^verbatim>\<open>init_webgl\<close>. At that point only objects of the 3D scene graph (the
  graph, the grid, the axes) have been added to the store; no camera, controls or
  renderer exists, no widget has been built, nothing has been displayed, and the scene has
  not been drawn.
\<close>

theorem show_unsupported_viewport:
  assumes "height (view (config v)) \<noteq> 0"
    and "viewport (view (config v)) \<noteq> ''top''"
    and "viewport (view (config v)) \<noteq> ''perspective''"
  shows "\<exists>v'. show_viewer draw v = Raises NotImplementedError v'
           \<and> init_webgl v = Raises NotImplementedError v'
           \<and> take (length (store v)) (store v') = store v
           \<and> list_all scene_part (drop (length (store v)) (store v'))
           \<and> camera3 v' = camera3 v \<and> controls3 v' = controls3 v
           \<and> renderer3 v' = renderer3 v
           \<and> ui_root v' = ui_root v \<and> toolbar v' = toolbar v \<and> main v' = main v
           \<and> statusbar v' = statusbar v \<and> statustext v' = statustext v
           \<and> displayed v' = displayed v \<and> scene v' = scene v"
proof -
  have u: "\<not> supported (config v)" using assms(2,3) by (simp add: supported_def)
  show ?thesis
    unfolding show_unsupported [OF assms(1) u] init_webgl_unsupported [OF assms(1) u]
    by (simp add: scene_objs_def)
qed

theorem show_unsupported_viewport_witness:
  "height (view (config front_viewer)) \<noteq> 0
   \<and> viewport (view (config front_viewer)) \<noteq> ''top''
   \<and> viewport (view (config front_viewer)) \<noteq> ''perspective''
   \<and> (\<exists>v'. show_viewer id front_viewer = Raises NotImplementedError v'
           \<and> init_webgl front_viewer = Raises NotImplementedError v'
           \<and> take (length (store front_viewer)) (store v') = store front_viewer
           \<and> list_all scene_part (drop (length (store front_viewer)) (store v'))
           \<and> camera3 v' = camera3 front_viewer \<and> controls3 v' = controls3 front_viewer
           \<and> renderer3 v' = renderer3 front_viewer
           \<and> ui_root v' = ui_root front_viewer \<and> toolbar v' = toolbar front_viewer
           \<and> main v' = main front_viewer
           \<and> statusbar v' = statusbar front_viewer \<and> statustext v' = statustext front_viewer
           \<and> displayed v' = displayed front_viewer \<and> scene v' = scene front_viewer)"
proof -
  have h: "height (view (config front_viewer)) \<noteq> 0"
    "viewport (view (config front_viewer)) \<noteq> ''top''"
    "viewport (view (config front_viewer)) \<noteq> ''perspective''"
    by (simp_all add: example_defs)
  from h show_unsupported_viewport [OF h, of id] show ?thesis by blast
qed

subsection \<open>C4: what update leaves alone\<close>

lemma ui_objs_fresh:
  assumes "ob \<in> set (ui_objs n cfg its r)" and "c \<in> set (widget_children ob)"
  shows "n \<le> c \<or> c = r"
  using assms
  by (auto simp add: ui_objs_def Let_def toolbar_objs_def statusbar_objs_def main_objs_def
      sidebar_objs_def checkbox_refs_def checkbox_of_def ui_main_ref_def main_ref_def
      split: if_splits)

text \<open>
  C4, as stated, fails: \<^verbatim>\<open>update()\<close> does not rebuild the widget tree. After an
  \<^verbatim>\<open>update()\<close> of the example viewer that has been shown, the root of the widget tree is
  the same widget as before (reference 6), and every object of the store but the 3D scene
  graph (reference 0) is as it was.
\<close>

theorem update_keeps_widgets_counterexample:
  "update id example_shown = Returns () (state_of (update id example_shown))
   \<and> ui_root example_shown = Some 6
   \<and> ui_root (state_of (update id example_shown)) = Some 6
   \<and> drop 1 (store (state_of (update id example_shown))) = drop 1 (store example_shown)"
proof -
  note u = update_Scene3 [OF example_shown_scene3(1,2,3), of id]
  have h: "update id example_shown = Returns () (state_of (update id example_shown))"
    by (rule returns_unit) (simp add: u example_shown_scene3)
  have r: "ui_root example_shown = Some 6"
    by (simp add: example_shown_eq shown_def Let_def ui_ref_def camera_ref_def axes_ref_def)
       (simp add: example_defs)
  have s: "state_of (update id example_shown) =
     example_shown\<lparr>scene := id (scene example_shown),
        store := (store example_shown)[0 := Scene3 ''#eeeeee''
           (helper_handles example_shown @ scene_handles (id (scene example_shown)))]\<rparr>"
    by (simp add: u example_shown_scene3)
  from h r show ?thesis
    by (simp add: s drop_update_cancel)
qed

text \<open>
  C4, amended: \<^verbatim>\<open>update()\<close> rebuilds the children of the 3D scene graph and nothing of
  the user interface: the attributes of the root, the toolbar, the main row, the status bar
  and the status text keep their widgets, no object is created, and every object other than
  the 3D scene graph is unchanged. The widget tree is built in full by \<^verbatim>\<open>init_ui\<close>, that
  is, on every \<^verbatim>\<open>show()\<close>, and then from new widgets: the root is a new object, the objects
  that existed before are unchanged, and every widget held by a new container is itself
  new, the renderer in the box of the 3D view apart.
\<close>

theorem update_keeps_widgets:
  "(update draw v = Returns () v' \<longrightarrow>
      ui_root v' = ui_root v \<and> toolbar v' = toolbar v \<and> main v' = main v
      \<and> statusbar v' = statusbar v \<and> statustext v' = statustext v
      \<and> length (store v') = length (store v)
      \<and> (\<forall>r. scene3 v \<noteq> Some r \<longrightarrow> lookup v' r = lookup v r))
   \<and> (init_ui v = Returns () w \<longrightarrow>
      ui_root w = Some (length (store v))
      \<and> take (length (store v)) (store w) = store v
      \<and> (\<forall>ob \<in> set (drop (length (store v)) (store w)).
           \<forall>r \<in> set (widget_children ob). length (store v) \<le> r \<or> renderer3 v = Some r))"
proof -
  have A: "ui_root v' = ui_root v \<and> toolbar v' = toolbar v \<and> main v' = main v
      \<and> statusbar v' = statusbar v \<and> statustext v' = statustext v
      \<and> length (store v') = length (store v)
      \<and> (\<forall>r. scene3 v \<noteq> Some r \<longrightarrow> lookup v' r = lookup v r)"
    if a: "update draw v = Returns () v'"
  proof (cases "scene3 v")
    case None
    with a show ?thesis by (simp add: update_without_scene3)
  next
    case (Some s)
    show ?thesis
    proof (cases "\<exists>bg cs. lookup v s = Some (Scene3 bg cs)")
      case False
      with Some a show ?thesis by (simp add: update_other)
    next
      case True
      then obtain bg cs where l: "s < length (store v)" "store v ! s = Scene3 bg cs"
        by (auto simp add: lookup_def split: if_splits)
      note u = update_Scene3 [OF Some l, of draw]
      have g: "\<not> (show_grid (view (config v)) \<and> grid3 v = None)"
        using a u by (cases "show_grid (view (config v)) \<and> grid3 v = None") simp_all
      have x: "\<not> (show_axes (view (config v)) \<and> axes3 v = None)"
        using a u g by (cases "show_axes (view (config v)) \<and> axes3 v = None") simp_all
      have v': "v' = v\<lparr>scene := draw (scene v),
                      store := (store v)[s := Scene3 bg
                        (helper_handles v @ scene_handles (draw (scene v)))]\<rparr>"
        using a u g x by simp
      show ?thesis
        using Some by (simp add: v' lookup_def)
    qed
  qed
  have B: "ui_root w = Some (length (store v))
      \<and> take (length (store v)) (store w) = store v
      \<and> (\<forall>ob \<in> set (drop (length (store v)) (store w)).
           \<forall>r \<in> set (widget_children ob). length (store v) \<le> r \<or> renderer3 v = Some r)"
    if a: "init_ui v = Returns () w"
  proof -
    from a have "returns (init_ui v)" by simp
    with init_ui_raises [of v] obtain r where r: "renderer3 v = Some r" by auto
    from a init_ui_result [OF r]
    have st: "store w = store v @ ui_objs (length (store v)) (config v) (the_items v) r"
      and u: "ui_root w = Some (length (store v))"
      by auto
    show ?thesis
      using u r ui_objs_fresh [of _ "length (store v)" "config v" "the_items v" r]
      by (auto simp add: st)
  qed
  from A B show ?thesis by blast
qed

theorem update_keeps_widgets_witness:
  "update id example_shown = Returns () (state_of (update id example_shown))
   \<and> ui_root (state_of (update id example_shown)) = ui_root example_shown
   \<and> main (state_of (update id example_shown)) = main example_shown
   \<and> length (store (state_of (update id example_shown))) = length (store example_shown)
   \<and> init_ui example_webgl = Returns () (state_of (init_ui example_webgl))
   \<and> ui_root (state_of (init_ui example_webgl)) = Some (length (store example_webgl))
   \<and> take (length (store example_webgl)) (store (state_of (init_ui example_webgl))) =
       store example_webgl"
proof -
  note u = update_Scene3 [OF example_shown_scene3(1,2,3), of id]
  have h: "update id example_shown = Returns () (state_of (update id example_shown))"
    by (rule returns_unit) (simp add: u example_shown_scene3)
  note i = init_ui_result [OF example_webgl_eq(1)]
  have k: "init_ui example_webgl = Returns () (state_of (init_ui example_webgl))"
    by (rule returns_unit) (simp add: i)
  from h k update_keeps_widgets [where v = example_shown and draw = id
      and v' = "state_of (update id example_shown)"]
    update_keeps_widgets [where v = example_webgl and w = "state_of (init_ui example_webgl)"]
  show ?thesis by blast
qed

subsection \<open>C5: show, called twice\<close>

lemma map_shift_upt: "map (\<lambda>r. r + d) [a ..< b] = [a + d ..< b + d]"
  by (induction b) simp_all

lemma shift_helper_refs:
  "map (shift_handle d) (helper_refs n cfg) = helper_refs (n + d) cfg"
  by (simp add: helper_refs_def axes_ref_def)

lemma shift_scene_handles: "map (shift_handle d) (scene_handles s) = scene_handles s"
  by (simp add: scene_handles_def map_concat comp_def)

lemma camera_ref_add: "camera_ref (n + d) cfg = camera_ref n cfg + d"
  by (simp add: camera_ref_def axes_ref_def)

lemma shift_webgl_objs:
  "map (shift_obj d) (webgl_objs n cfg cs) = webgl_objs (n + d) cfg (map (shift_handle d) cs)"
  by (simp add: webgl_objs_def scene_objs_def camera_obj_def Let_def camera_ref_add)

lemma shift_toolbar_objs: "map (shift_obj d) (toolbar_objs n) = toolbar_objs (n + d)"
  by (simp add: toolbar_objs_def)

lemma shift_statusbar_objs: "map (shift_obj d) (statusbar_objs n) = statusbar_objs (n + d)"
  by (simp add: statusbar_objs_def)

lemma shift_sidebar_objs:
  "map (shift_obj d) (sidebar_objs n h its) = sidebar_objs (n + d) h its"
  by (simp add: sidebar_objs_def checkbox_refs_def map_shift_upt checkbox_of_def add_ac)

lemma shift_main_objs:
  "map (shift_obj d) (main_objs n cfg its r) = main_objs (n + d) cfg its (r + d)"
  by (simp add: main_objs_def Let_def shift_sidebar_objs)

lemma ui_main_ref_add: "ui_main_ref (n + d) cfg its = ui_main_ref n cfg its + d"
  by (simp add: ui_main_ref_def main_ref_def)

lemma shift_ui_objs:
  "map (shift_obj d) (ui_objs n cfg its r) = ui_objs (n + d) cfg its (r + d)"
proof -
  have 1: "n + d + 1 = (n + 1) + d" "n + d + 1 + 5 = (n + 1 + 5) + d"
    "n + d + 1 + 0 = (n + 1 + 0) + d" "n + d + 5 = n + 5 + d"
    by simp_all
  have 2: "ui_main_ref (n + d) cfg its + 1 = (ui_main_ref n cfg its + 1) + d"
    "ui_main_ref (n + d) cfg its + 2 = (ui_main_ref n cfg its + 2) + d"
    by (simp_all add: ui_main_ref_add)
  show ?thesis
    unfolding ui_objs_def Let_def
    by (cases "show_toolbar (ui cfg)"; cases "show_statusbar (ui cfg)")
       (simp_all only: map_append list.map shift_obj.simps if_True if_False
          shift_toolbar_objs shift_statusbar_objs shift_main_objs 1 2 ui_main_ref_add
          append_Nil append_Nil2, simp_all add: add_ac)
qed


lemma example_shown_show: "show_viewer id example_viewer = Returns () example_shown"
  by (simp add: example_shown_eq show_result [OF example_viewer_ok])

lemma example_shown_ui:
  "ui_root example_shown = Some 6" "displayed example_shown = [6]"
  "length (store example_shown) = 20" "config example_shown = example_config"
  by (simp_all add: example_shown_eq shown_def Let_def ui_ref_def camera_ref_def axes_ref_def
      length_webgl_objs length_ui_objs side_size_def the_items_def checkbox_items_def)
     (simp_all add: example_defs)

text \<open>
  C5, as stated, fails: a second \<^verbatim>\<open>show()\<close> does not leave the viewer in the state of
  the first. It builds everything anew: in the example the root of the widget tree is
  widget 6 after the first call and widget 26 after the second, and the display has
  received both.
\<close>

theorem show_twice_counterexample:
  "show_viewer id example_viewer = Returns () example_shown
   \<and> ui_root example_shown = Some 6
   \<and> displayed example_shown = [6]
   \<and> ui_root (state_of (show_viewer id example_shown)) = Some 26
   \<and> displayed (state_of (show_viewer id example_shown)) = [6, 26]
   \<and> state_of (show_viewer id example_shown) \<noteq> example_shown"
proof -
  have ok: "height (view (config example_shown)) \<noteq> 0" "supported (config example_shown)"
    by (simp_all add: example_shown_ui supported_def) (simp_all add: example_defs)
  have u: "ui_ref example_shown = 26"
    by (simp add: ui_ref_def example_shown_ui camera_ref_def axes_ref_def)
       (simp add: example_defs)
  have 1: "ui_root (state_of (show_viewer id example_shown)) = Some 26"
    "displayed (state_of (show_viewer id example_shown)) = [6, 26]"
    by (simp_all add: show_result [OF ok] shown_def Let_def u example_shown_ui)
  from 1(1) example_shown_ui(1)
  have "state_of (show_viewer id example_shown) \<noteq> example_shown" by auto
  with example_shown_show example_shown_ui 1 show ?thesis by simp
qed

text \<open>
  C5, amended: \<^verbatim>\<open>show()\<close> is idempotent up to the identity of the objects it creates and
  up to the display. When a first call has returned and the scene's draw is idempotent on
  the scene, a second call returns too; it leaves every object of the store as it was and
  appends as many objects as the first call did, namely the objects of the first call with
  every reference renamed to the corresponding new object. Each attribute that \<^verbatim>\<open>show()\<close>
  sets refers to the new counterpart of the object it referred to; the other attributes,
  the configuration, the scene, the controller and the call log are as after the first
  call; the new root widget is displayed in addition to the first.
\<close>

theorem show_twice:
  assumes "show_viewer draw v = Returns () v1"
    and "draw (draw (scene v)) = draw (scene v)"
  shows "\<exists>v2 d u. show_viewer draw v1 = Returns () v2
     \<and> 0 < d
     \<and> length (store v1) = length (store v) + d
     \<and> length (store v2) = length (store v1) + d
     \<and> take (length (store v1)) (store v2) = store v1
     \<and> drop (length (store v1)) (store v2) =
         map (shift_obj d) (drop (length (store v)) (store v1))
     \<and> scene3 v2 = map_option (\<lambda>r. r + d) (scene3 v1)
     \<and> camera3 v2 = map_option (\<lambda>r. r + d) (camera3 v1)
     \<and> controls3 v2 = map_option (\<lambda>r. r + d) (controls3 v1)
     \<and> renderer3 v2 = map_option (\<lambda>r. r + d) (renderer3 v1)
     \<and> ui_root v2 = map_option (\<lambda>r. r + d) (ui_root v1)
     \<and> main v2 = map_option (\<lambda>r. r + d) (main v1)
     \<and> grid3 v2 = (if show_grid (view (config v))
                   then map_option (\<lambda>r. r + d) (grid3 v1) else grid3 v1)
     \<and> axes3 v2 = (if show_axes (view (config v))
                   then map_option (\<lambda>r. r + d) (axes3 v1) else axes3 v1)
     \<and> toolbar v2 = (if show_toolbar (ui (config v))
                     then map_option (\<lambda>r. r + d) (toolbar v1) else toolbar v1)
     \<and> statusbar v2 = (if show_statusbar (ui (config v))
                       then map_option (\<lambda>r. r + d) (statusbar v1) else statusbar v1)
     \<and> statustext v2 = (if show_statusbar (ui (config v))
                        then map_option (\<lambda>r. r + d) (statustext v1) else statustext v1)
     \<and> ui_root v2 = Some u \<and> displayed v2 = displayed v1 @ [u]
     \<and> config v2 = config v1 \<and> scene v2 = scene v1
     \<and> controller v2 = controller v1 \<and> calls v2 = calls v1"
proof -
  from show_returns_shown [OF assms(1)]
  have ok: "height (view (config v)) \<noteq> 0" "supported (config v)" and v1: "v1 = shown draw v"
    by simp_all
  let ?n = "length (store v)"
  let ?cfg = "config v"
  let ?its = "the_items v"
  let ?c = "camera_ref ?n ?cfg"
  let ?sh = "scene_handles (draw (scene v))"
  let ?W = "webgl_objs ?n ?cfg (helper_refs ?n ?cfg @ ?sh)"
  let ?U = "ui_objs (ui_ref v) ?cfg ?its (?c + 2)"
  define d where "d = length ?W + length ?U"
  have cfg1: "config v1 = ?cfg" and its1: "the_items v1 = ?its"
    and sc1: "scene v1 = draw (scene v)"
    by (simp_all add: v1 shown_frame)
  have st1: "store v1 = store v @ ?W @ ?U"
    by (simp add: v1 shown_def Let_def)
  have len1: "length (store v1) = ?n + d"
    by (simp add: st1 d_def)
  have pos: "0 < d" by (simp add: d_def length_webgl_objs)
  have ok1: "height (view (config v1)) \<noteq> 0" "supported (config v1)"
    using ok by (simp_all add: cfg1)
  have c1: "camera_ref (length (store v1)) ?cfg = ?c + d"
    by (simp add: len1 camera_ref_add)
  have u1: "ui_ref v1 = ui_ref v + d"
    by (simp add: ui_ref_def cfg1 c1)
  have sh1: "scene_handles (draw (scene v1)) = ?sh"
    by (simp add: sc1 assms(2))
  have W: "webgl_objs (?n + d) ?cfg (helper_refs (?n + d) ?cfg @ ?sh) = map (shift_obj d) ?W"
    by (simp add: shift_webgl_objs shift_helper_refs shift_scene_handles)
  have U: "ui_objs (ui_ref v + d) ?cfg ?its (?c + d + 2) = map (shift_obj d) ?U"
    by (simp add: shift_ui_objs add_ac)
  have "store (shown draw v1) = store v1 @
      webgl_objs (length (store v1)) (config v1)
        (helper_refs (length (store v1)) (config v1) @ scene_handles (draw (scene v1))) @
      ui_objs (ui_ref v1) (config v1) (the_items v1)
        (camera_ref (length (store v1)) (config v1) + 2)"
    by (simp add: shown_def Let_def)
  then have st2: "store (shown draw v1) = store v1 @ map (shift_obj d) (?W @ ?U)"
    unfolding cfg1 its1 sh1 u1 len1 camera_ref_add W U map_append .
  have at: "scene3 v1 = Some ?n" "camera3 v1 = Some ?c" "controls3 v1 = Some (?c + 1)"
    "renderer3 v1 = Some (?c + 2)" "ui_root v1 = Some (ui_ref v)"
    "main v1 = Some (ui_main_ref (ui_ref v) ?cfg ?its)"
    "show_grid (view ?cfg) \<Longrightarrow> grid3 v1 = Some (?n + 1)"
    "show_axes (view ?cfg) \<Longrightarrow> axes3 v1 = Some (axes_ref ?n ?cfg)"
    "show_toolbar (ui ?cfg) \<Longrightarrow> toolbar v1 = Some (ui_ref v + 5)"
    "show_statusbar (ui ?cfg) \<Longrightarrow> statusbar v1 = Some (ui_main_ref (ui_ref v) ?cfg ?its + 2)"
    "show_statusbar (ui ?cfg) \<Longrightarrow> statustext v1 = Some (ui_main_ref (ui_ref v) ?cfg ?its + 1)"
    by (simp_all add: v1 shown_def Let_def)
  have at2: "scene3 (shown draw v1) = Some (?n + d)" "camera3 (shown draw v1) = Some (?c + d)"
    "controls3 (shown draw v1) = Some (?c + d + 1)"
    "renderer3 (shown draw v1) = Some (?c + d + 2)"
    "ui_root (shown draw v1) = Some (ui_ref v + d)"
    "main (shown draw v1) = Some (ui_main_ref (ui_ref v) ?cfg ?its + d)"
    "grid3 (shown draw v1) = (if show_grid (view ?cfg) then Some (?n + d + 1) else grid3 v1)"
    "axes3 (shown draw v1) =
       (if show_axes (view ?cfg) then Some (axes_ref ?n ?cfg + d) else axes3 v1)"
    "toolbar (shown draw v1) =
       (if show_toolbar (ui ?cfg) then Some (ui_ref v + d + 5) else toolbar v1)"
    "statusbar (shown draw v1) =
       (if show_statusbar (ui ?cfg) then Some (ui_main_ref (ui_ref v) ?cfg ?its + d + 2)
        else statusbar v1)"
    "statustext (shown draw v1) =
       (if show_statusbar (ui ?cfg) then Some (ui_main_ref (ui_ref v) ?cfg ?its + d + 1)
        else statustext v1)"
    "displayed (shown draw v1) = displayed v1 @ [ui_ref v + d]"
    by (simp_all add: shown_def Let_def cfg1 its1 u1 len1 ui_main_ref_add axes_ref_def
        camera_ref_add)
  have fr: "config (shown draw v1) = config v1" "controller (shown draw v1) = controller v1"
    "calls (shown draw v1) = calls v1" "scene (shown draw v1) = scene v1"
    by (simp_all add: shown_frame sc1 assms(2))
  have l2: "length (store (shown draw v1)) = length (store v1) + d"
    by (simp add: st2 d_def)
  have tk: "take (length (store v1)) (store (shown draw v1)) = store v1"
    by (simp add: st2)
  have dr: "drop (length (store v1)) (store (shown draw v1)) =
         map (shift_obj d) (drop ?n (store v1))"
    by (simp add: st2) (simp add: st1)
  show ?thesis
    apply (rule exI [of _ "shown draw v1"], rule exI [of _ d], rule exI [of _ "ui_ref v + d"])
    apply (simp only: show_result [OF ok1] pos len1 [symmetric] l2 tk dr fr at2 simp_thms)
    apply (simp add: len1 at)
    done
qed

theorem show_twice_witness:
  "show_viewer id example_viewer = Returns () example_shown
   \<and> id (id (scene example_viewer)) = id (scene example_viewer)
   \<and> (\<exists>v2 d. show_viewer id example_shown = Returns () v2
        \<and> 0 < d
        \<and> length (store example_shown) = length (store example_viewer) + d
        \<and> length (store v2) = length (store example_shown) + d
        \<and> take (length (store example_shown)) (store v2) = store example_shown
        \<and> drop (length (store example_shown)) (store v2) =
            map (shift_obj d) (drop (length (store example_viewer)) (store example_shown))
        \<and> ui_root v2 = map_option (\<lambda>r. r + d) (ui_root example_shown))"
proof -
  have i: "id (id (scene example_viewer)) = id (scene example_viewer)" by simp
  from show_twice [OF example_shown_show i] obtain v2 d where
    "show_viewer id example_shown = Returns () v2" "0 < d"
    "length (store example_shown) = length (store example_viewer) + d"
    "length (store v2) = length (store example_shown) + d"
    "take (length (store example_shown)) (store v2) = store example_shown"
    "drop (length (store example_shown)) (store v2) =
       map (shift_obj d) (drop (length (store example_viewer)) (store example_shown))"
    "ui_root v2 = map_option (\<lambda>r. r + d) (ui_root example_shown)"
    by blast
  with example_shown_show i show ?thesis by blast
qed

subsection \<open>C6: the height and the panels of the user interface\<close>

text \<open>
  C6: when \<^verbatim>\<open>init_ui\<close> returns, the root of the widget tree declares the height of the 3D
  view plus 64 if the toolbar is enabled, plus 48 if the status bar is enabled, plus 4;
  the sidebar flag does not enter the height. The children of the root are the toolbar if
  and only if its flag is set, the main row, and the status bar if and only if its flag
  is set; the children of the main row are the sidebar if and only if its flag is set,
  and the box of the 3D view, which holds the renderer.
\<close>

theorem init_ui_tree:
  assumes "init_ui v = Returns () v'"
  shows "\<exists>u m b r tb sb side.
       ui_root v' = Some u \<and> main v' = Some m \<and> renderer3 v = Some r
     \<and> lookup v' u = Some (Container VBox
          [(''width'', ''auto''),
           (''height'', px (height (view (config v)) +
              (if show_toolbar (ui (config v)) then 64 else 0) +
              (if show_statusbar (ui (config v)) then 48 else 0) + 4))]
          (tb @ [m] @ sb))
     \<and> (if show_toolbar (ui (config v))
         then \<exists>t lay bs. tb = [t] \<and> toolbar v' = Some t
                \<and> lookup v' t = Some (Container HBox lay bs)
         else tb = [])
     \<and> (if show_statusbar (ui (config v))
         then \<exists>s t lay. sb = [s] \<and> statusbar v' = Some s \<and> statustext v' = Some t
                \<and> lookup v' s = Some (Container HBox lay [t])
         else sb = [])
     \<and> lookup v' m = Some (Container HBox
          [(''width'', ''auto''), (''height'', px (height (view (config v)) + 4))] (side @ [b]))
     \<and> (if sidebar_show (sidebar (ui (config v)))
         then \<exists>g cs. side = [g]
                \<and> lookup v' g = Some (Container GridBox
                     (sidebar_layout (height (view (config v)))) cs)
         else side = [])
     \<and> lookup v' b = Some (Container PlainBox
          [(''width'', ''auto''), (''height'', px (height (view (config v)) + 4))] [r])"
proof -
  let ?n = "length (store v)"
  let ?cfg = "config v"
  let ?its = "the_items v"
  let ?m = "ui_main_ref ?n ?cfg ?its"
  from assms have "returns (init_ui v)" by simp
  with init_ui_raises [of v] obtain r where r: "renderer3 v = Some r" by auto
  let ?st = "store v @ ui_objs ?n ?cfg ?its r"
  from assms init_ui_result [OF r] have v': "v' =
       v\<lparr>toolbar := (if show_toolbar (ui ?cfg) then Some (?n + 5) else toolbar v),
          main := Some ?m,
          statusbar := (if show_statusbar (ui ?cfg) then Some (?m + 2) else statusbar v),
          statustext := (if show_statusbar (ui ?cfg) then Some (?m + 1) else statustext v),
          ui_root := Some ?n,
          store := ?st\<rparr>"
    by simp
  have st: "store v' = ?st" by (simp add: v')
  note b = ui_main_ref_gt [of "store v" ?cfg ?its] ui_main_ref_lt [of "store v" ?cfg ?its r]
  have lu: "lookup v' ?n = Some (?st ! ?n)"
    using b by (simp add: lookup_def st del: length_append)
  have lm: "lookup v' ?m = Some (?st ! ?m)"
    using b by (simp add: lookup_def st del: length_append split: if_splits)
  have lb: "lookup v' (?m - 1) = Some (?st ! (?m - 1))"
    using b by (simp add: lookup_def st del: length_append split: if_splits)
  have lt: "show_toolbar (ui ?cfg) \<Longrightarrow> lookup v' (?n + 5) = Some (?st ! (?n + 5))"
    by (simp add: lookup_def st length_ui_objs)
  have ls: "show_statusbar (ui ?cfg) \<Longrightarrow> lookup v' (?m + 2) = Some (?st ! (?m + 2))"
    using b by (simp add: lookup_def st del: length_append)
  have lg: "sidebar_show (sidebar (ui ?cfg)) \<Longrightarrow>
      lookup v' (?n + (if show_toolbar (ui ?cfg) then 5 else 0) + 2) =
      Some (?st ! (?n + (if show_toolbar (ui ?cfg) then 5 else 0) + 2))"
    by (simp add: lookup_def st length_ui_objs side_size_def)
  let ?tb = "if show_toolbar (ui ?cfg) then [?n + 5] else []"
  let ?sb = "if show_statusbar (ui ?cfg) then [?m + 2] else []"
  let ?side = "if sidebar_show (sidebar (ui ?cfg))
               then [?n + (if show_toolbar (ui ?cfg) then 5 else 0) + 2] else []"
  have 1: "ui_root v' = Some ?n" "main v' = Some ?m" by (simp_all add: v')
  have at: "show_toolbar (ui ?cfg) \<Longrightarrow> toolbar v' = Some (?n + 5)"
    "show_statusbar (ui ?cfg) \<Longrightarrow> statusbar v' = Some (?m + 2)"
    "show_statusbar (ui ?cfg) \<Longrightarrow> statustext v' = Some (?m + 1)"
    by (simp_all add: v')
  have 2: "lookup v' ?n = Some (Container VBox
          [(''width'', ''auto''),
           (''height'', px (height (view ?cfg) +
              (if show_toolbar (ui ?cfg) then 64 else 0) +
              (if show_statusbar (ui ?cfg) then 48 else 0) + 4))]
          (?tb @ [?m] @ ?sb))"
    unfolding lu ui_objs_root by (simp add: ui_height_def)
  have 3: "if show_toolbar (ui ?cfg)
         then \<exists>t lay bs. ?tb = [t] \<and> toolbar v' = Some t
                \<and> lookup v' t = Some (Container HBox lay bs)
         else ?tb = []"
  proof (cases "show_toolbar (ui ?cfg)")
    case True
    have "lookup v' (?n + 5) = Some (last (toolbar_objs (?n + 1)))"
      unfolding lt [OF True] ui_objs_toolbar [OF True] ..
    with True at(1) show ?thesis by (simp add: last_toolbar_objs)
  next
    case False
    then show ?thesis by simp
  qed
  have 4: "if show_statusbar (ui ?cfg)
         then \<exists>s t lay. ?sb = [s] \<and> statusbar v' = Some s \<and> statustext v' = Some t
                \<and> lookup v' s = Some (Container HBox lay [t])
         else ?sb = []"
  proof (cases "show_statusbar (ui ?cfg)")
    case True
    have "lookup v' (?m + 2) = Some (last (statusbar_objs (?m + 1)))"
      unfolding ls [OF True] ui_objs_statusbar [OF True] ..
    with True at(2,3) show ?thesis by (simp add: last_statusbar_objs)
  next
    case False
    then show ?thesis by simp
  qed
  have 5: "lookup v' ?m = Some (Container HBox
          [(''width'', ''auto''), (''height'', px (height (view ?cfg) + 4))] (?side @ [?m - 1]))"
    unfolding lm ui_objs_main by (simp add: row_layout_def)
  have 6: "if sidebar_show (sidebar (ui ?cfg))
         then \<exists>g cs. ?side = [g]
                \<and> lookup v' g = Some (Container GridBox (sidebar_layout (height (view ?cfg))) cs)
         else ?side = []"
  proof (cases "sidebar_show (sidebar (ui ?cfg))")
    case True
    have "lookup v' (?n + (if show_toolbar (ui ?cfg) then 5 else 0) + 2) =
        Some (Container GridBox (sidebar_layout (height (view ?cfg)))
          (checkbox_refs (?n + (if show_toolbar (ui ?cfg) then 5 else 0) + 1) ?its))"
      unfolding lg [OF True] ui_objs_sidebar [OF True] ..
    with True show ?thesis by simp
  next
    case False
    then show ?thesis by simp
  qed
  have 7: "lookup v' (?m - 1) = Some (Container PlainBox
          [(''width'', ''auto''), (''height'', px (height (view ?cfg) + 4))] [r])"
    unfolding lb ui_objs_view3d by (simp add: row_layout_def)
  from 1 r 2 3 4 5 6 7 show ?thesis by blast
qed

theorem init_ui_tree_witness:
  "init_ui example_webgl = Returns () (state_of (init_ui example_webgl))
   \<and> (\<exists>kids. lookup (state_of (init_ui example_webgl)) 6 =
        Some (Container VBox [(''width'', ''auto''), (''height'', ''616px'')] kids))"
proof -
  note i = init_ui_result [OF example_webgl_eq(1)]
  have h: "init_ui example_webgl = Returns () (state_of (init_ui example_webgl))"
    by (rule returns_unit) (simp add: i)
  have u: "ui_root (state_of (init_ui example_webgl)) = Some 6"
    by (simp add: i example_webgl_eq)
  have c: "height (view (config example_webgl)) = 500"
    "show_toolbar (ui (config example_webgl))" "show_statusbar (ui (config example_webgl))"
    by (simp_all add: example_webgl_eq) (simp_all add: example_defs)
  have p: "px 616 = ''616px''" by (simp add: px_def str_int_def digits.simps)
  from init_ui_tree [OF h] u h show ?thesis
    by (auto simp add: c p)
qed

subsection \<open>C7: the camera\<close>




subsection \<open>C8: the status text\<close>

text \<open>
  C8: \<^verbatim>\<open>set_statustext(text)\<close> changes nothing when the viewer has no status text (the
  attribute is \<^verbatim>\<open>None\<close>), which is the case after \<^verbatim>\<open>show()\<close> on a new viewer whose
  status bar flag is off; when the user interface has been built with the status bar flag
  on, it sets the value of the status-text widget to the text and changes nothing else.
\<close>

theorem set_statustext_effect:
  "(statustext v = None \<longrightarrow> set_statustext msg v = Returns () v)
   \<and> (init_ui v0 = Returns () v \<and> show_statusbar (ui (config v0)) \<longrightarrow>
        (\<exists>t w. statustext v = Some t \<and> lookup v t = Some (Text w)
           \<and> set_statustext msg v = Returns () (put t (Text (w\<lparr>text_value := msg\<rparr>)) v)
           \<and> lookup (put t (Text (w\<lparr>text_value := msg\<rparr>)) v) t =
               Some (Text (w\<lparr>text_value := msg\<rparr>))))
   \<and> (show_viewer draw (Viewer_init w0 fc dc ca sa ka) = Returns () v1
        \<and> \<not> show_statusbar (ui (config v1)) \<longrightarrow>
        statustext v1 = None \<and> set_statustext msg v1 = Returns () v1)"
proof -
  have A: "statustext v = None \<longrightarrow> set_statustext msg v = Returns () v"
    by (simp add: set_statustext_def)
  have B: "\<exists>t w. statustext v = Some t \<and> lookup v t = Some (Text w)
           \<and> set_statustext msg v = Returns () (put t (Text (w\<lparr>text_value := msg\<rparr>)) v)
           \<and> lookup (put t (Text (w\<lparr>text_value := msg\<rparr>)) v) t =
               Some (Text (w\<lparr>text_value := msg\<rparr>))"
    if a: "init_ui v0 = Returns () v \<and> show_statusbar (ui (config v0))"
  proof -
    let ?n = "length (store v0)"
    let ?cfg = "config v0"
    let ?its = "the_items v0"
    let ?m = "ui_main_ref ?n ?cfg ?its"
    from a have "returns (init_ui v0)" by simp
    with init_ui_raises [of v0] obtain r where r: "renderer3 v0 = Some r" by auto
    let ?st = "store v0 @ ui_objs ?n ?cfg ?its r"
    from a init_ui_result [OF r] have st: "store v = ?st" and t: "statustext v = Some (?m + 1)"
      by auto
    have lt: "?m + 1 < length (store v)"
      unfolding st using a ui_main_ref_lt [of "store v0" ?cfg ?its r] by simp
    then have "lookup v (?m + 1) = Some (?st ! (?m + 1))"
      by (simp add: lookup_def st)
    with a have l: "lookup v (?m + 1) = Some (hd (statusbar_objs (?m + 1)))"
      by (simp only: ui_objs_statustext)
    show ?thesis
      using t l lt by (simp add: hd_statusbar_objs set_statustext_def) (simp add: lookup_def put_def)
  qed
  have C: "statustext v1 = None \<and> set_statustext msg v1 = Returns () v1"
    if a: "show_viewer draw (Viewer_init w0 fc dc ca sa ka) = Returns () v1
        \<and> \<not> show_statusbar (ui (config v1))"
  proof -
    from a have v1: "v1 = shown draw (Viewer_init w0 fc dc ca sa ka)"
      using show_returns_shown by blast
    have c: "config v1 = config (Viewer_init w0 fc dc ca sa ka)"
      by (simp add: v1 shown_def Let_def)
    have "statustext v1 = statustext (Viewer_init w0 fc dc ca sa ka)"
      using a unfolding c by (simp add: v1 shown_def Let_def)
    then have n: "statustext v1 = None" by (simp add: Viewer_init_def)
    then show ?thesis by (simp add: set_statustext_def)
  qed
  from A B C show ?thesis by blast
qed

theorem set_statustext_effect_witness:
  "statustext example_viewer = None
   \<and> set_statustext ''hello'' example_viewer = Returns () example_viewer
   \<and> init_ui example_webgl = Returns () (state_of (init_ui example_webgl))
   \<and> show_statusbar (ui (config example_webgl))
   \<and> (\<exists>t w. statustext (state_of (init_ui example_webgl)) = Some t
        \<and> lookup (state_of (init_ui example_webgl)) t = Some (Text w)
        \<and> set_statustext ''hello'' (state_of (init_ui example_webgl)) =
            Returns () (put t (Text (w\<lparr>text_value := ''hello''\<rparr>)) (state_of (init_ui example_webgl)))
        \<and> lookup (put t (Text (w\<lparr>text_value := ''hello''\<rparr>)) (state_of (init_ui example_webgl))) t =
            Some (Text (w\<lparr>text_value := ''hello''\<rparr>)))
   \<and> show_viewer id (Viewer_init empty_world plain_config example_controller None
         (Some example_scene) None) =
       Returns () (shown id (Viewer_init empty_world plain_config example_controller None
         (Some example_scene) None))
   \<and> \<not> show_statusbar (ui (config (shown id (Viewer_init empty_world plain_config
         example_controller None (Some example_scene) None))))
   \<and> set_statustext ''hello'' (shown id (Viewer_init empty_world plain_config
         example_controller None (Some example_scene) None)) =
       Returns () (shown id (Viewer_init empty_world plain_config
         example_controller None (Some example_scene) None))"
proof -
  let ?p = "Viewer_init empty_world plain_config example_controller None (Some example_scene) None"
  have n: "statustext example_viewer = None" by (simp add: example_defs)
  note i = init_ui_result [OF example_webgl_eq(1)]
  have h: "init_ui example_webgl = Returns () (state_of (init_ui example_webgl))"
    by (rule returns_unit) (simp add: i)
  have b: "show_statusbar (ui (config example_webgl))"
    by (simp add: example_webgl_eq) (simp add: example_defs)
  have ok: "height (view (config ?p)) \<noteq> 0" "supported (config ?p)"
    by (simp_all add: Viewer_init_def plain_config_def example_config_def supported_def)
  have q: "\<not> show_statusbar (ui (config (shown id ?p)))"
    by (simp add: shown_def Let_def) (simp add: Viewer_init_def plain_config_def)
  note s = show_result [OF ok, of id]
  from n h b s q
    set_statustext_effect [where v = example_viewer and msg = "''hello''"]
    set_statustext_effect [where v = "state_of (init_ui example_webgl)" and msg = "''hello''"
      and ?v0.0 = example_webgl and draw = id and ?w0.0 = empty_world and fc = plain_config
      and dc = example_controller and ca = None and sa = "Some example_scene" and ka = None
      and ?v1.0 = "shown id ?p"]
  show ?thesis by blast
qed

subsection \<open>C9: registration of the box adapter\<close>

text \<open>
  C9, as stated, fails: importing the plugin module only defines the three hooks; the
  registry is the same after the import, so in a process with an empty registry the key
  (Box, "Notebook") is still unbound after the import.
\<close>

theorem import_module_registers_nothing:
  "registry (import_module empty_process) (''Notebook'', Box) \<noteq> Some BoxObject"
  by (simp add: import_module_def plugin_def empty_process_def)

text \<open>
  C9, amended: the association is made when the hook \<^verbatim>\<open>register_scene_objects\<close> is
  called, not by the import of the module. A call of the hook binds the key
  (Box, "Notebook") of the registry to the adapter BoxObject and leaves every other key as
  it was; the import leaves the registry unchanged and declares the three hooks; the
  hooks \<^verbatim>\<open>clear\<close> and \<^verbatim>\<open>redraw\<close> change nothing.
\<close>

theorem register_scene_objects_registers_box:
  "registry (register_scene_objects p) (''Notebook'', Box) = Some BoxObject
   \<and> registry (register_scene_objects p) = (registry p)((''Notebook'', Box) \<mapsto> BoxObject)
   \<and> registry (import_module p) = registry p
   \<and> map hook_function (hooks (import_module p)) =
       map hook_function (hooks p) @
       [''clear_pythreejs'', ''redraw_pythreejs'', ''register_scene_objects'']
   \<and> clear_pythreejs g p = p
   \<and> redraw_pythreejs p = p"
  by (simp add: register_scene_objects_def register_def print_def import_module_def
      plugin_def clear_pythreejs_def redraw_pythreejs_def)

subsection \<open>C10: update before show\<close>

text \<open>
  C10: the constructor creates neither the 3D scene graph nor the grid and axes helpers
  (the attributes do not exist), and \<^verbatim>\<open>update()\<close> on the viewer the constructor returns
  raises \<^verbatim>\<open>AttributeError\<close> at its first statement, the read of \<^verbatim>\<open>self.scene3\<close>, with
  the viewer unchanged.
\<close>

theorem update_before_show_raises:
  "scene3 (Viewer_init w fc dc ca sa ka) = None
   \<and> grid3 (Viewer_init w fc dc ca sa ka) = None
   \<and> axes3 (Viewer_init w fc dc ca sa ka) = None
   \<and> update draw (Viewer_init w fc dc ca sa ka) =
       Raises (AttributeError ''scene3'') (Viewer_init w fc dc ca sa ka)"
  by (simp add: update_def get_attr_def then_do_def Viewer_init_def)

end
